theory Spec2Isabelle
  imports Main "HOL-Library.Word" "HOL-Library.Signed_Division"
begin

unbundle bit_operations_syntax

section \<open>The process table of proc.c\<close>

text \<open>
  The model follows \<^verbatim>\<open>proc.c\<close>.  A \<^verbatim>\<open>uint\<close> and every pointer into memory that
  proc.c does not own (kernel stacks, page directories, user addresses, wait channels) is
  a 32-bit word, with 0 as the null pointer.  A pointer to a slot of \<^verbatim>\<open>ptable.proc\<close>
  is the index of the slot, with \<open>None\<close> as the null pointer.  A C \<^verbatim>\<open>int\<close> is an
  \<open>int\<close>; where the code adds to one, the wrap-around is written out.
\<close>

type_synonym addr = "32 word"

datatype procstate = UNUSED | EMBRYO | SLEEPING | RUNNABLE | RUNNING | ZOMBIE

text \<open>
  Modelled from the spec: \<^verbatim>\<open>struct trapframe\<close> is declared in x86.h, which is not
  among the sources.  The record has the registers that proc.c reads or writes one by one;
  \<^verbatim>\<open>*np->tf = *proc->tf\<close> copies the record as a whole.
\<close>

record trapframe =
  eax :: addr
  ecx :: addr
  edx :: addr
  eip :: addr
  esp :: addr

text \<open>
  Modelled from the spec: \<^verbatim>\<open>struct proc\<close> is declared in proc.h, which is not among
  the sources.  The record has the fields that proc.c uses, typed as the spec's data model
  describes them.  \<open>tf\<close> holds the trap frame that \<^verbatim>\<open>p->tf\<close> points to; \<open>name\<close> holds
  the C string in \<^verbatim>\<open>p->name\<close> (the characters before the first NUL); \<open>ofile\<close> has
  \<^verbatim>\<open>NOFILE\<close> entries and \<open>handlers\<close> one entry per signal number.  The saved kernel
  context is not modelled.
\<close>

record proc =
  sz :: addr
  pgdir :: addr
  kstack :: addr
  state :: procstate
  pid :: int
  parent :: "nat option"
  tf :: trapframe
  chan :: addr
  killed :: int
  ofile :: "addr list"
  cwd :: addr
  name :: string
  handlers :: "addr list"
  restorer_addr :: addr
  cow :: int
  athread :: int
  tstack :: addr
  tretval :: addr

text \<open>
  What proc.c does to the rest of the kernel is recorded as a trace of events: the calls
  of the page allocator, the VM layer, the file layer and the console, and every write of
  a slot's \<^verbatim>\<open>state\<close> field (slot, old state, new state, and whether
  \<^verbatim>\<open>ptable.lock\<close> was held at the write).
\<close>

datatype event =
    Kfree addr
  | Freevm addr
  | Filedup addr
  | Idup addr
  | CowCopyfreepg addr addr
  | Cprintf string
  | StateWrite nat procstate procstate bool

text \<open>
  The globals of proc.c: \<^verbatim>\<open>ptable.lock\<close> (held or not), \<^verbatim>\<open>ptable.proc\<close> (a list of
  \<^verbatim>\<open>NPROC\<close> slots), the current process \<^verbatim>\<open>proc\<close> (the index of its slot),
  \<^verbatim>\<open>initproc\<close>, \<^verbatim>\<open>nextpid\<close>; the bytes of the current address space; the trace.
\<close>

record kstate =
  ptable_lock :: bool
  procs :: "proc list"
  curproc :: nat
  initproc :: "nat option"
  nextpid :: int
  umem :: "addr \<Rightarrow> 8 word"
  trace :: "event list"

text \<open>
  Modelled from the spec: the constants \<^verbatim>\<open>KERNBASE\<close> of memlayout.h and \<^verbatim>\<open>PGSIZE\<close>
  of mmu.h, which are not among the sources.  The spec speaks of a 32-bit x86 kernel with
  a kernel base and page-sized frames; the values are those of xv6 on x86.
\<close>

definition KERNBASE :: addr where
  "KERNBASE = 0x80000000"

definition PGSIZE :: int where
  "PGSIZE = 4096"

text \<open>
  The range of a C \<^verbatim>\<open>int\<close>, and the value an \<^verbatim>\<open>int\<close> holds after an addition has
  left that range: C leaves it undefined, the compiled kernel wraps around at \<open>2^32\<close>.
\<close>

definition INT_MAX :: int where
  "INT_MAX = 2 ^ 31 - 1"

definition INT_MIN :: int where
  "INT_MIN = - (2 ^ 31)"

definition wrap_int :: "int \<Rightarrow> int" where
  "wrap_int x = sint (word_of_int x :: 32 word)"

text \<open>
  Modelled from the spec: \<^verbatim>\<open>acquire\<close> and \<^verbatim>\<open>release\<close> of spinlock.c, which is not
  among the sources, applied to \<^verbatim>\<open>ptable.lock\<close>: they take and give back the lock.
\<close>

definition acquire :: "kstate \<Rightarrow> kstate" where
  "acquire s = s\<lparr>ptable_lock := True\<rparr>"

definition release :: "kstate \<Rightarrow> kstate" where
  "release s = s\<lparr>ptable_lock := False\<rparr>"

definition emit :: "event \<Rightarrow> kstate \<Rightarrow> kstate" where
  "emit e s = s\<lparr>trace := trace s @ [e]\<rparr>"

text \<open>\<^verbatim>\<open>p->f = v\<close> for the slot \<open>i\<close>: \<open>upd\<close> is the field update.\<close>

definition set_slot :: "nat \<Rightarrow> (proc \<Rightarrow> proc) \<Rightarrow> kstate \<Rightarrow> kstate" where
  "set_slot i upd s = s\<lparr>procs := (procs s)[i := upd (procs s ! i)]\<rparr>"

text \<open>\<^verbatim>\<open>p->state = st\<close> for the slot \<open>i\<close>, recorded in the trace.\<close>

definition set_state :: "nat \<Rightarrow> procstate \<Rightarrow> kstate \<Rightarrow> kstate" where
  "set_state i st s =
     set_slot i (\<lambda>p. p\<lparr>state := st\<rparr>)
       (emit (StateWrite i (state (procs s ! i)) st (ptable_lock s)) s)"

section \<open>The copy-on-write fault hook\<close>

text \<open>
  \<^verbatim>\<open>cow_on\<close>: \<open>cr2\<close> is what \<^verbatim>\<open>rcr2()\<close> returns and \<open>cow_copyfreepg\<close> is the
  result of the VM routine of that name, a function of the page directory and the
  address; calling it is recorded in the trace.
\<close>

definition cow_on :: "addr \<Rightarrow> (addr \<Rightarrow> addr \<Rightarrow> int) \<Rightarrow> kstate \<Rightarrow> int \<times> kstate" where
  "cow_on cr2 cow_copyfreepg s =
     (if cr2 > KERNBASE
      then (- 1, emit (Cprintf ''cannot write to kernel's region'') s)
      else (cow_copyfreepg (pgdir (procs s ! curproc s)) cr2,
            emit (CowCopyfreepg (pgdir (procs s ! curproc s)) cr2) s))"


section \<open>Scanning the table\<close>

text \<open>
  \<^verbatim>\<open>for(p = ptable.proc; p < &ptable.proc[NPROC]; p++) if(c) ...\<close> leaving the loop at
  the first slot that satisfies \<open>c\<close>: the index of that slot, counted from \<open>i\<close>.
\<close>

fun find_slot :: "(proc \<Rightarrow> bool) \<Rightarrow> nat \<Rightarrow> proc list \<Rightarrow> nat option" where
  "find_slot c i [] = None"
| "find_slot c i (p # ps) = (if c p then Some i else find_slot c (Suc i) ps)"

text \<open>
  Modelled from the spec: the signal numbers \<^verbatim>\<open>SIGKILL\<close>, \<^verbatim>\<open>SIGFPE\<close> and
  \<^verbatim>\<open>SIGSEGV\<close> are declared in a header that is not among the sources and the spec
  gives no values, so they are parameters.  They index \<^verbatim>\<open>handlers\<close> and are not
  negative.
\<close>

record signums =
  SIGKILL :: int
  SIGFPE :: int
  SIGSEGV :: int

section \<open>allocproc\<close>

text \<open>
  \<open>kalloc\<close> is what \<^verbatim>\<open>kalloc()\<close> returns when it is called (0 when no page is
  free).  \<^verbatim>\<open>p->tf\<close> is left at the top of the new kernel stack, at the address
  \<open>tf_addr\<close> below; the stores of \<^verbatim>\<open>trapret\<close> and of the context below it are not
  modelled.  The result is the slot, or \<open>None\<close> for the null pointer.
\<close>

definition allocproc :: "signums \<Rightarrow> addr \<Rightarrow> kstate \<Rightarrow> nat option \<times> kstate" where
  "allocproc sg kalloc s =
     (case find_slot (\<lambda>p. state p = UNUSED) 0 (procs s) of
        None \<Rightarrow> (None, s)
      | Some i \<Rightarrow>
          (let s1 = set_state i EMBRYO s;
               s2 = set_slot i (\<lambda>p. p\<lparr>pid := nextpid s1\<rparr>) s1;
               s3 = s2\<lparr>nextpid := wrap_int (nextpid s2 + 1)\<rparr>;
               s4 = set_slot i (\<lambda>p. p\<lparr>kstack := kalloc\<rparr>) s3
           in if kalloc = 0 then (None, set_state i UNUSED s4)
              else (Some i,
                    set_slot i (\<lambda>p. p\<lparr>handlers :=
                                         (handlers p)[nat (SIGKILL sg) := - 1,
                                                      nat (SIGFPE sg) := - 1,
                                                      nat (SIGSEGV sg) := - 1],
                                       cow := 0, restorer_addr := - 1, athread := 0\<rparr>) s4)))"

section \<open>wait\<close>

text \<open>
  The inner loop of \<^verbatim>\<open>wait\<close>, for the current process \<open>c\<close>: the first slot that is a
  ZOMBIE child of \<open>c\<close> (if any), and \<^verbatim>\<open>havekids\<close> as it stands on leaving the loop.
\<close>

fun scan_children :: "nat \<Rightarrow> int \<Rightarrow> nat \<Rightarrow> proc list \<Rightarrow> nat option \<times> int" where
  "scan_children c havekids i [] = (None, havekids)"
| "scan_children c havekids i (p # ps) =
     (if parent p \<noteq> Some c then scan_children c havekids (Suc i) ps
      else if state p = ZOMBIE then (Some i, 1)
      else scan_children c 1 (Suc i) ps)"

text \<open>
  One pass of the body of \<^verbatim>\<open>for(;;)\<close> in \<^verbatim>\<open>wait\<close>, entered with the lock held.  It
  returns \<open>Some r\<close> when \<^verbatim>\<open>wait\<close> returns \<open>r\<close>, and \<open>None\<close> when it reaches
  \<^verbatim>\<open>sleep(proc, &ptable.lock)\<close>: the caller then blocks, and runs the body again from
  whatever the table is when it is woken.
\<close>

definition wait_body :: "kstate \<Rightarrow> int option \<times> kstate" where
  "wait_body s =
     (case scan_children (curproc s) 0 0 (procs s) of
        (Some i, havekids) \<Rightarrow>
          (let pid0 = pid (procs s ! i);
               s1 = emit (Kfree (kstack (procs s ! i))) s;
               s2 = set_slot i (\<lambda>p. p\<lparr>kstack := 0\<rparr>) s1;
               s3 = emit (Freevm (pgdir (procs s2 ! i))) s2;
               s4 = set_slot i (\<lambda>p. p\<lparr>pid := 0, parent := None, name := [], killed := 0\<rparr>) s3;
               s5 = set_state i UNUSED s4
           in (Some pid0, release s5))
      | (None, havekids) \<Rightarrow>
          (if havekids = 0 \<or> killed (procs s ! curproc s) \<noteq> 0
           then (Some (- 1), release s)
           else (None, s)))"

definition wait :: "kstate \<Rightarrow> int option \<times> kstate" where
  "wait s = wait_body (acquire s)"

section \<open>sleep, wakeup, kill\<close>

text \<open>
  \<^verbatim>\<open>sleep(chan, lk)\<close> up to its call of \<^verbatim>\<open>sched()\<close>, and from the return of
  \<^verbatim>\<open>sched()\<close> on.  \<open>lk_is_ptable\<close> says whether \<^verbatim>\<open>lk\<close> is \<^verbatim>\<open>&ptable.lock\<close>; another
  lock is not part of the state.  The current process exists in the model, so the two
  panics of \<^verbatim>\<open>sleep\<close> do not arise.
\<close>

definition sleep_enter :: "addr \<Rightarrow> bool \<Rightarrow> kstate \<Rightarrow> kstate" where
  "sleep_enter c lk_is_ptable s =
     (let s1 = (if lk_is_ptable then s else acquire s);
          s2 = set_slot (curproc s1) (\<lambda>p. p\<lparr>chan := c\<rparr>) s1
      in set_state (curproc s2) SLEEPING s2)"

definition sleep_return :: "bool \<Rightarrow> kstate \<Rightarrow> kstate" where
  "sleep_return lk_is_ptable s =
     (let s1 = set_slot (curproc s) (\<lambda>p. p\<lparr>chan := 0\<rparr>) s
      in if lk_is_ptable then s1 else release s1)"

definition wakeup1 :: "addr \<Rightarrow> kstate \<Rightarrow> kstate" where
  "wakeup1 c s =
     fold (\<lambda>i s'. if state (procs s' ! i) = SLEEPING \<and> chan (procs s' ! i) = c
                   then set_state i RUNNABLE s' else s')
          [0..<length (procs s)] s"

definition wakeup :: "addr \<Rightarrow> kstate \<Rightarrow> kstate" where
  "wakeup c s = release (wakeup1 c (acquire s))"

definition kill :: "int \<Rightarrow> kstate \<Rightarrow> int \<times> kstate" where
  "kill pd s =
     (let s1 = acquire s in
      case find_slot (\<lambda>p. pid p = pd) 0 (procs s1) of
        Some i \<Rightarrow>
          (let s2 = set_slot i (\<lambda>p. p\<lparr>killed := 1\<rparr>) s1;
               s3 = (if state (procs s2 ! i) = SLEEPING then set_state i RUNNABLE s2 else s2)
           in (0, release s3))
      | None \<Rightarrow> (- 1, release s1))"

section \<open>User memory\<close>

text \<open>
  \<^verbatim>\<open>*(uint*)a = v\<close> and the read of a \<^verbatim>\<open>uint\<close> at \<open>a\<close>: four bytes, little-endian,
  at addresses that wrap around at \<open>2^32\<close>.
\<close>

definition write32 :: "addr \<Rightarrow> addr \<Rightarrow> (addr \<Rightarrow> 8 word) \<Rightarrow> addr \<Rightarrow> 8 word" where
  "write32 a v m =
     m(a := ucast v, a + 1 := ucast (drop_bit 8 v), a + 2 := ucast (drop_bit 16 v),
       a + 3 := ucast (drop_bit 24 v))"

definition read32 :: "(addr \<Rightarrow> 8 word) \<Rightarrow> addr \<Rightarrow> addr" where
  "read32 m a =
     ucast (m a) OR push_bit 8 (ucast (m (a + 1))) OR push_bit 16 (ucast (m (a + 2)))
       OR push_bit 24 (ucast (m (a + 3)))"

section \<open>Signal delivery\<close>

text \<open>
  Modelled from the spec: \<^verbatim>\<open>siginfo_t\<close> is declared in a header that is not among the
  sources; the spec describes it as 8 bytes, the address and then the protection type.
\<close>

record siginfo =
  info_addr :: addr
  info_type :: addr

text \<open>
  Modelled from the spec: \<^verbatim>\<open>KSTACKSIZE\<close> of param.h and the layout of
  \<^verbatim>\<open>struct trapframe\<close> of x86.h, which are not among the sources.  The spec gives a
  task a kernel stack of one page with the trap frame carved from its top; the sizes are
  those of xv6 on x86: a trap frame of 76 bytes with edx, ecx and eax at the offsets 20, 24
  and 28, eip at 56 and esp at 68.
\<close>

definition KSTACKSIZE :: int where
  "KSTACKSIZE = 4096"

definition tf_size :: addr where
  "tf_size = 76"

definition tf_edx :: addr where
  "tf_edx = 20"

definition tf_ecx :: addr where
  "tf_ecx = 24"

definition tf_eax :: addr where
  "tf_eax = 28"

definition tf_eip :: addr where
  "tf_eip = 56"

definition tf_esp :: addr where
  "tf_esp = 68"

text \<open>
  The address that \<^verbatim>\<open>p->tf\<close> holds: \<^verbatim>\<open>allocproc\<close> sets it to
  \<^verbatim>\<open>p->kstack + KSTACKSIZE - sizeof *p->tf\<close>, and nothing in proc.c moves it.
\<close>

definition tf_addr :: "proc \<Rightarrow> addr" where
  "tf_addr p = kstack p + word_of_int KSTACKSIZE - tf_size"

text \<open>
  The trap frame is a kernel object in the same address space as the user stack.  Where a
  function stores through a pointer that the user controls, the registers of the trap frame
  are put into the memory at their addresses first and read back from it at the end:
  \<open>tf_to_mem\<close> writes the registers of the record at the address \<open>t\<close>, \<open>tf_of_mem\<close>
  reads them there.
\<close>

definition tf_to_mem :: "addr \<Rightarrow> trapframe \<Rightarrow> (addr \<Rightarrow> 8 word) \<Rightarrow> addr \<Rightarrow> 8 word" where
  "tf_to_mem t r m =
     write32 (t + tf_esp) (esp r) (write32 (t + tf_eip) (eip r) (write32 (t + tf_eax) (eax r)
       (write32 (t + tf_ecx) (ecx r) (write32 (t + tf_edx) (edx r) m))))"

definition tf_of_mem :: "addr \<Rightarrow> (addr \<Rightarrow> 8 word) \<Rightarrow> trapframe" where
  "tf_of_mem t m =
     \<lparr>eax = read32 m (t + tf_eax), ecx = read32 m (t + tf_ecx), edx = read32 m (t + tf_edx),
      eip = read32 m (t + tf_eip), esp = read32 m (t + tf_esp)\<rparr>"

text \<open>
  \<^verbatim>\<open>signal_deliver\<close> up to and including \<^verbatim>\<open>proc->tf->esp -= 32\<close>.  \<open>cr2\<close> is what
  \<^verbatim>\<open>rcr2()\<close> returns, \<open>getprot\<close> the VM routine of that name, and \<open>info0\<close> what the
  uninitialised local \<^verbatim>\<open>info\<close> holds on entry.  Every statement reads
  \<^verbatim>\<open>proc->tf->esp\<close> and the register it saves from the memory as the stores before it
  have left it, and stores through that stack pointer, which nothing checks.  The fields of
  \<^verbatim>\<open>struct proc\<close> itself are not part of the modelled memory.
\<close>

definition signal_frame ::
  "signums \<Rightarrow> addr \<Rightarrow> (addr \<Rightarrow> addr \<Rightarrow> addr) \<Rightarrow> siginfo \<Rightarrow> int \<Rightarrow> kstate \<Rightarrow> kstate" where
  "signal_frame sg cr2 getprot info0 signum s =
     (let p = procs s ! curproc s;
          t = tf_addr p;
          info = (if signum = SIGSEGV sg
                  then \<lparr>info_addr = cr2, info_type = getprot (pgdir p) cr2\<rparr>
                  else info0);
          m0 = tf_to_mem t (tf p) (umem s);
          old_eip = read32 m0 (t + tf_eip);
          m1 = write32 (read32 m0 (t + tf_esp) - 4) old_eip m0;
          m2 = write32 (read32 m1 (t + tf_esp) - 8) (read32 m1 (t + tf_eax)) m1;
          m3 = write32 (read32 m2 (t + tf_esp) - 12) (read32 m2 (t + tf_ecx)) m2;
          m4 = write32 (read32 m3 (t + tf_esp) - 16) (read32 m3 (t + tf_edx)) m3;
          ip = read32 m4 (t + tf_esp) - 24;
          m5 = write32 (ip + 4) (info_type info) (write32 ip (info_addr info) m4);
          m6 = write32 (read32 m5 (t + tf_esp) - 28) (word_of_int signum) m5;
          m7 = write32 (read32 m6 (t + tf_esp) - 32) (restorer_addr p) m6;
          m8 = write32 (t + tf_esp) (read32 m7 (t + tf_esp) - 32) m7
      in set_slot (curproc s) (\<lambda>p. p\<lparr>tf := tf_of_mem t m8\<rparr>) (s\<lparr>umem := m8\<rparr>))"

text \<open>
  \<^verbatim>\<open>signal_deliver\<close>: the frame, then \<^verbatim>\<open>proc->tf->eip = (uint) proc->handlers[signum]\<close>.
  The result is \<open>None\<close> when \<^verbatim>\<open>signum\<close> is not an index of \<^verbatim>\<open>handlers\<close>, where C gives
  that last read no meaning; what the call has done until then is \<open>signal_frame\<close>.
\<close>

definition signal_deliver ::
  "signums \<Rightarrow> addr \<Rightarrow> (addr \<Rightarrow> addr \<Rightarrow> addr) \<Rightarrow> siginfo \<Rightarrow> int \<Rightarrow> kstate \<Rightarrow> kstate option" where
  "signal_deliver sg cr2 getprot info0 signum s =
     (let s1 = signal_frame sg cr2 getprot info0 signum s;
          p = procs s1 ! curproc s1;
          t = tf_addr p
      in if 0 \<le> signum \<and> nat signum < length (handlers p)
         then (let m9 = write32 (t + tf_eip) (handlers p ! nat signum) (umem s1)
               in Some (set_slot (curproc s1) (\<lambda>p. p\<lparr>tf := tf_of_mem t m9\<rparr>)
                          (s1\<lparr>umem := m9\<rparr>)))
         else None)"

text \<open>
  The words of a signal frame below the stack pointer \<open>sp\<close>: at \<open>sp - 4\<close>, \<open>sp - 8\<close>,
  \<open>sp - 12\<close>, \<open>sp - 16\<close>, \<open>sp - 20\<close>, \<open>sp - 24\<close>, \<open>sp - 28\<close> and \<open>sp - 32\<close>.
\<close>

definition frame_words :: "(addr \<Rightarrow> 8 word) \<Rightarrow> addr \<Rightarrow> addr list" where
  "frame_words m sp =
     [read32 m (sp - 4), read32 m (sp - 8), read32 m (sp - 12), read32 m (sp - 16),
      read32 m (sp - 20), read32 m (sp - 24), read32 m (sp - 28), read32 m (sp - 32)]"

text \<open>
  The 32 bytes below the stack pointer \<open>sp\<close> and the trap frame at \<open>t\<close> do not overlap:
  the stack pointer is the address of the trap frame, or lies at least the trap frame and
  the signal frame above it (addresses wrap around).
\<close>

definition frame_apart :: "addr \<Rightarrow> addr \<Rightarrow> bool" where
  "frame_apart sp t = (sp = t \<or> tf_size + 32 \<le> sp - t)"

section \<open>mprotect\<close>

text \<open>
  The loop of \<^verbatim>\<open>mprotect\<close>, from \<^verbatim>\<open>i\<close> on, with \<open>lim\<close> for \<^verbatim>\<open>(int) addr + len\<close>.
  \<open>applyprot\<close> is the VM routine of that name: from the state of the VM layer, the page
  directory, the address and the protection it gives its result and the new state of the
  VM layer.  \<^verbatim>\<open>i += PGSIZE\<close> wraps around.  The loop need not end: \<open>None\<close> is the call
  that never returns.
\<close>

partial_function (option) mprotect_loop ::
  "('vm \<Rightarrow> addr \<Rightarrow> addr \<Rightarrow> int \<Rightarrow> int \<times> 'vm) \<Rightarrow> addr \<Rightarrow> int \<Rightarrow> int \<Rightarrow> int \<Rightarrow> 'vm
     \<Rightarrow> (int \<times> 'vm) option" where
  "mprotect_loop applyprot pd prot lim i vm =
     (if i < lim
      then (let r = applyprot vm pd (word_of_int i) prot
            in if fst r \<noteq> 0 then Some (- 1, snd r)
               else mprotect_loop applyprot pd prot lim (wrap_int (i + PGSIZE)) (snd r))
      else Some (0, vm))"

text \<open>
  \<^verbatim>\<open>mprotect\<close>: \<^verbatim>\<open>(int) addr\<close> is the signed reading of the pointer, \<^verbatim>\<open>%\<close> truncates
  towards zero, and \<^verbatim>\<open>(int) addr + len\<close> wraps around.
\<close>

definition mprotect ::
  "('vm \<Rightarrow> addr \<Rightarrow> addr \<Rightarrow> int \<Rightarrow> int \<times> 'vm) \<Rightarrow> kstate \<Rightarrow> addr \<Rightarrow> int \<Rightarrow> int \<Rightarrow> 'vm
     \<Rightarrow> (int \<times> 'vm) option" where
  "mprotect applyprot s a len prot vm =
     (if sint a smod PGSIZE \<noteq> 0 then Some (- 1, vm)
      else mprotect_loop applyprot (pgdir (procs s ! curproc s)) prot
             (wrap_int (sint a + len)) (sint a) vm)"

section \<open>Forking and cloning\<close>

text \<open>
  Modelled from the spec: \<^verbatim>\<open>filedup\<close> and \<^verbatim>\<open>idup\<close> are not among the sources; they
  take a reference to their argument and return it.  \<open>dup_files\<close> is
  \<^verbatim>\<open>for(i = 0; i < NOFILE; i++) if(proc->ofile[i]) np->ofile[i] = filedup(proc->ofile[i]);\<close>
  followed by \<^verbatim>\<open>np->cwd = idup(proc->cwd)\<close>, from the slot \<open>pr\<close> to the slot \<open>np\<close>.
\<close>

definition dup_files :: "nat \<Rightarrow> nat \<Rightarrow> kstate \<Rightarrow> kstate" where
  "dup_files pr np s =
     (let fs = ofile (procs s ! pr);
          s1 = set_slot np (\<lambda>p. p\<lparr>ofile := map2 (\<lambda>f g. if f \<noteq> 0 then f else g) fs (ofile p)\<rparr>) s;
          s2 = s1\<lparr>trace := trace s1 @ map Filedup (filter (\<lambda>f. f \<noteq> 0) fs)\<rparr>;
          s3 = emit (Idup (cwd (procs s2 ! pr))) s2
      in set_slot np (\<lambda>p. p\<lparr>cwd := cwd (procs s3 ! pr)\<rparr>) s3)"

text \<open>
  Modelled from the spec: \<^verbatim>\<open>safestrcpy\<close> of string.c is not among the sources; it
  copies a string into a buffer of the given size.  \<open>copy_name\<close> is
  \<^verbatim>\<open>safestrcpy(d->name, s->name, sizeof(s->name))\<close> between two slots: the two buffers
  have the same size, so the whole string of the source is copied.
\<close>

definition copy_name :: "nat \<Rightarrow> nat \<Rightarrow> kstate \<Rightarrow> kstate" where
  "copy_name d src s = set_slot d (\<lambda>p. p\<lparr>name := name (procs s ! src)\<rparr>) s"

text \<open>
  \<^verbatim>\<open>fork\<close>: \<open>kalloc\<close> is what \<^verbatim>\<open>kalloc()\<close> returns in \<^verbatim>\<open>allocproc\<close> and \<open>copyuvm\<close>
  what \<^verbatim>\<open>copyuvm\<close> returns.
\<close>

definition fork :: "signums \<Rightarrow> addr \<Rightarrow> addr \<Rightarrow> kstate \<Rightarrow> int \<times> kstate" where
  "fork sg kalloc copyuvm s =
     (let s0 = acquire s in
      case allocproc sg kalloc s0 of
        (None, s1) \<Rightarrow> (- 1, release s1)
      | (Some np, s1) \<Rightarrow>
          (let pr = curproc s1;
               s2 = set_slot np (\<lambda>p. p\<lparr>pgdir := copyuvm\<rparr>) s1
           in if copyuvm = 0
              then (let s3 = emit (Kfree (kstack (procs s2 ! np))) s2;
                        s4 = set_slot np (\<lambda>p. p\<lparr>kstack := 0\<rparr>) s3;
                        s5 = set_state np UNUSED s4
                    in (- 1, release s5))
              else (let s3 = set_slot np (\<lambda>p. p\<lparr>sz := sz (procs s2 ! pr)\<rparr>) s2;
                        s4 = set_slot np (\<lambda>p. p\<lparr>parent := Some pr\<rparr>) s3;
                        s5 = set_slot np (\<lambda>p. p\<lparr>tf := tf (procs s4 ! pr)\<rparr>) s4;
                        s6 = set_slot np (\<lambda>p. p\<lparr>tf := (tf p)\<lparr>eax := 0\<rparr>\<rparr>) s5;
                        s7 = dup_files pr np s6;
                        s8 = copy_name np pr s7;
                        pid0 = pid (procs s8 ! np);
                        s9 = set_state np RUNNABLE s8
                    in (pid0, release s9))))"

text \<open>\<^verbatim>\<open>cowfork\<close>: \<open>cow_copyuvm\<close> is what \<^verbatim>\<open>cow_copyuvm\<close> returns.\<close>

definition cowfork :: "signums \<Rightarrow> addr \<Rightarrow> addr \<Rightarrow> kstate \<Rightarrow> int \<times> kstate" where
  "cowfork sg kalloc cow_copyuvm s =
     (case allocproc sg kalloc s of
        (None, s1) \<Rightarrow> (- 1, s1)
      | (Some np, s1) \<Rightarrow>
          (let pr = curproc s1;
               s2 = set_slot np (\<lambda>p. p\<lparr>pgdir := cow_copyuvm\<rparr>) s1
           in if cow_copyuvm = 0
              then (let s3 = emit (Kfree (kstack (procs s2 ! np))) s2;
                        s4 = set_slot np (\<lambda>p. p\<lparr>kstack := 0\<rparr>) s3;
                        s5 = set_state np UNUSED s4
                    in (- 1, s5))
              else (let sa = set_slot pr (\<lambda>p. p\<lparr>cow := 1\<rparr>) s2;
                        sb = set_slot np (\<lambda>p. p\<lparr>cow := 1\<rparr>) sa;
                        s3 = set_slot np (\<lambda>p. p\<lparr>sz := sz (procs sb ! pr)\<rparr>) sb;
                        s4 = set_slot np (\<lambda>p. p\<lparr>parent := Some pr\<rparr>) s3;
                        s5 = set_slot np (\<lambda>p. p\<lparr>tf := tf (procs s4 ! pr)\<rparr>) s4;
                        s6 = set_slot np (\<lambda>p. p\<lparr>tf := (tf p)\<lparr>eax := 0\<rparr>\<rparr>) s5;
                        s7 = dup_files pr np s6;
                        s8 = copy_name np pr s7;
                        pid0 = pid (procs s8 ! np);
                        s9 = release (set_state np RUNNABLE (acquire s8))
                    in (pid0, s9))))"

text \<open>\<^verbatim>\<open>thread_init(np, stack)\<close>.\<close>

definition thread_init :: "nat \<Rightarrow> addr \<Rightarrow> kstate \<Rightarrow> kstate" where
  "thread_init np stack s =
     (let pr = curproc s;
          s1 = set_slot np (\<lambda>p. p\<lparr>athread := 1\<rparr>) s;
          s2 = set_slot np (\<lambda>p. p\<lparr>tstack := stack\<rparr>) s1;
          s3 = set_slot np (\<lambda>p. p\<lparr>pgdir := pgdir (procs s2 ! pr)\<rparr>) s2;
          s4 = set_slot np (\<lambda>p. p\<lparr>sz := sz (procs s3 ! pr)\<rparr>) s3;
          s5 = set_slot np (\<lambda>p. p\<lparr>parent := Some pr\<rparr>) s4;
          s6 = set_slot np (\<lambda>p. p\<lparr>killed := 0\<rparr>) s5
      in copy_name pr np s6)"

text \<open>\<^verbatim>\<open>clone(func, arg, stack)\<close>.\<close>

definition clone :: "signums \<Rightarrow> addr \<Rightarrow> addr \<Rightarrow> addr \<Rightarrow> addr \<Rightarrow> kstate \<Rightarrow> int \<times> kstate" where
  "clone sg kalloc func arg stack s =
     (let s0 = acquire s in
      case allocproc sg kalloc s0 of
        (None, s1) \<Rightarrow> (- 1, s1)
      | (Some np, s1) \<Rightarrow>
          (let s2 = thread_init np stack s1;
               pr = curproc s2;
               s3 = set_slot np (\<lambda>p. p\<lparr>tf := tf (procs s2 ! pr)\<rparr>) s2;
               s4 = dup_files pr np s3;
               s5 = set_slot np (\<lambda>p. p\<lparr>tf := (tf p)\<lparr>esp := stack + word_of_int PGSIZE - 8\<rparr>\<rparr>) s4;
               sp = esp (tf (procs s5 ! np));
               s6 = s5\<lparr>umem := write32 sp 0 (umem s5)\<rparr>;
               s7 = s6\<lparr>umem := write32 (sp + 4) arg (umem s6)\<rparr>;
               s8 = set_slot np (\<lambda>p. p\<lparr>tf := (tf p)\<lparr>eip := func\<rparr>\<rparr>) s7;
               s9 = release (set_state np RUNNABLE s8)
           in (pid (procs s9 ! np), s9)))"

section \<open>Example tables\<close>

text \<open>A slot of the zero-initialised table, with two file slots and four signals.\<close>

definition zero_proc :: proc where
  "zero_proc =
     \<lparr>sz = 0, pgdir = 0, kstack = 0, state = UNUSED, pid = 0, parent = None,
      tf = \<lparr>eax = 0, ecx = 0, edx = 0, eip = 0, esp = 0\<rparr>,
      chan = 0, killed = 0, ofile = [0, 0], cwd = 0, name = [],
      handlers = [0, 0, 0, 0], restorer_addr = 0, cow = 0, athread = 0,
      tstack = 0, tretval = 0\<rparr>"

definition table :: "proc list \<Rightarrow> kstate" where
  "table ps =
     \<lparr>ptable_lock = False, procs = ps, curproc = 0, initproc = None, nextpid = 4,
      umem = (\<lambda>a. 0), trace = []\<rparr>"

text \<open>The running caller, in slot 0.\<close>

definition ex_caller :: proc where
  "ex_caller = zero_proc\<lparr>state := RUNNING, pid := 1, pgdir := 0x2000, kstack := 0x3000,
                          sz := 0x1000, name := ''sh''\<rparr>"

text \<open>An exited child process of the caller, with a page directory of its own.\<close>

definition ex_zombie :: "int \<Rightarrow> proc" where
  "ex_zombie n = zero_proc\<lparr>state := ZOMBIE, pid := n, parent := Some 0, pgdir := 0x5000,
                            kstack := 0x4000, sz := 0x1000, name := ''ls''\<rparr>"

text \<open>An exited thread of the caller: it shares the caller's page directory.\<close>

definition ex_zombie_thread :: proc where
  "ex_zombie_thread = zero_proc\<lparr>state := ZOMBIE, pid := 2, parent := Some 0, pgdir := 0x2000,
                                  kstack := 0x4000, sz := 0x1000, athread := 1,
                                  tstack := 0x7000\<rparr>"

text \<open>A child of the caller that sleeps on the channel 7.\<close>

definition ex_sleeper :: proc where
  "ex_sleeper = zero_proc\<lparr>state := SLEEPING, pid := 2, parent := Some 0, pgdir := 0x5000,
                            kstack := 0x4000, chan := 7\<rparr>"

text \<open>The table after the caller has reaped two exited children, one after the other.\<close>

definition ex_two_reaped :: kstate where
  "ex_two_reaped = snd (wait (snd (wait (table [ex_caller, ex_zombie 2, ex_zombie 3]))))"

text \<open>
  A process about to be handed the signal 2, with its stack pointer in user space; its
  kernel stack is the page at \<open>0x8DFFF000\<close>, so its trap frame is at \<open>0x8DFFFFB4\<close>.
  Then the same process with its stack pointer just above the saved eax in its own trap
  frame.  Then the VM layer's \<^verbatim>\<open>getprot\<close>, the uninitialised \<^verbatim>\<open>info\<close> and the numbering
  of the signals used.
\<close>

definition ex_signalled :: proc where
  "ex_signalled =
     zero_proc\<lparr>state := RUNNING, pid := 1, pgdir := 0x2000, kstack := 0x8DFFF000, sz := 0x3000,
               tf := \<lparr>eax = 0x11, ecx = 0x22, edx = 0x33, eip = 0x400, esp = 0x2FF0\<rparr>,
               handlers := [0xFFFFFFFF, 0xFFFFFFFF, 0x500, 0],
               restorer_addr := 0x600\<rparr>"

definition ex_signalled_in_tf :: proc where
  "ex_signalled_in_tf =
     ex_signalled\<lparr>tf := \<lparr>eax = 0x11, ecx = 0x22, edx = 0x33, eip = 0x400, esp = 0x8DFFFFD4\<rparr>\<rparr>"

definition ex_getprot :: "addr \<Rightarrow> addr \<Rightarrow> addr" where
  "ex_getprot pd a = 5"

definition ex_info :: siginfo where
  "ex_info = \<lparr>info_addr = 0, info_type = 0\<rparr>"

definition ex_signums :: signums where
  "ex_signums = \<lparr>SIGKILL = 0, SIGFPE = 1, SIGSEGV = 2\<rparr>"

text \<open>
  A VM layer for the examples: its state counts the calls of \<^verbatim>\<open>applyprot\<close>; the page
  at \<open>0x3000\<close> and the kernel's pages, from \<^verbatim>\<open>KERNBASE\<close> on, accept no protection.
\<close>

definition ex_applyprot :: "nat \<Rightarrow> addr \<Rightarrow> addr \<Rightarrow> int \<Rightarrow> int \<times> nat" where
  "ex_applyprot vm pd x prot = (if x = 0x3000 \<or> KERNBASE \<le> x then 1 else 0, Suc vm)"

definition ex_accepts :: "addr \<Rightarrow> bool" where
  "ex_accepts x = (x \<noteq> 0x3000 \<and> x < KERNBASE)"

text \<open>
  The table after \<^verbatim>\<open>allocproc\<close> has set up the free slot 1 for the caller, with the
  kernel stack \<open>0x8000\<close>: called with the lock held, and called without it.
\<close>

definition ex_embryo :: kstate where
  "ex_embryo = snd (allocproc ex_signums 0x8000 (acquire (table [ex_caller, zero_proc])))"

definition ex_embryo_unlocked :: kstate where
  "ex_embryo_unlocked = snd (allocproc ex_signums 0x8000 (table [ex_caller, zero_proc]))"

section \<open>State invariants\<close>

definition sleeping_iff_chan :: "kstate \<Rightarrow> bool" where
  "sleeping_iff_chan s = list_all (\<lambda>p. (state p = SLEEPING) = (chan p \<noteq> 0)) (procs s)"

definition sleeping_has_chan :: "kstate \<Rightarrow> bool" where
  "sleeping_has_chan s = list_all (\<lambda>p. state p = SLEEPING \<longrightarrow> chan p \<noteq> 0) (procs s)"

section \<open>Properties\<close>

lemma cow_on_above:
  "KERNBASE < a \<Longrightarrow> cow_on a f s = (- 1, emit (Cprintf ''cannot write to kernel's region'') s)"
  by (simp add: cow_on_def)

lemma cow_on_below:
  "a \<le> KERNBASE \<Longrightarrow>
     cow_on a f s = (f (pgdir (procs s ! curproc s)) a,
                     emit (CowCopyfreepg (pgdir (procs s ! curproc s)) a) s)"
  by (auto simp: cow_on_def)

text \<open>
  C5.  At the kernel base itself, the first address of the kernel's region, \<^verbatim>\<open>cow_on\<close>
  does not return -1: the test is \<^verbatim>\<open>addr > KERNBASE\<close>, so the VM copy routine is called
  on the kernel address and its result is returned.
\<close>

theorem cow_on_at_kernbase:
  "cow_on KERNBASE f s =
     (f (pgdir (procs s ! curproc s)) KERNBASE,
      emit (CowCopyfreepg (pgdir (procs s ! curproc s)) KERNBASE) s)"
  by (simp add: cow_on_def)

subsection \<open>Scans\<close>

lemma find_slot_Some:
  "find_slot c k ps = Some i \<Longrightarrow>
     k \<le> i \<and> i - k < length ps \<and> c (ps ! (i - k)) \<and> (\<forall>j<i - k. \<not> c (ps ! j))"
proof (induction ps arbitrary: k)
  case Nil
  then show ?case by simp
next
  case (Cons p ps)
  show ?case
  proof (cases "c p")
    case True
    with Cons.prems show ?thesis by simp
  next
    case False
    with Cons.prems have "find_slot c (Suc k) ps = Some i" by simp
    from Cons.IH [OF this]
    have ih: "Suc k \<le> i" "i - Suc k < length ps" "c (ps ! (i - Suc k))"
      "\<forall>j<i - Suc k. \<not> c (ps ! j)" by simp_all
    then have eq: "i - k = Suc (i - Suc k)" by simp
    have "\<not> c ((p # ps) ! j)" if "j < i - k" for j
      using that ih False eq by (cases j) simp_all
    with ih eq show ?thesis by simp
  qed
qed

lemma find_slot_first:
  "i < length ps \<Longrightarrow> c (ps ! i) \<Longrightarrow> \<forall>j<i. \<not> c (ps ! j) \<Longrightarrow> find_slot c k ps = Some (k + i)"
proof (induction ps arbitrary: i k)
  case Nil
  then show ?case by simp
next
  case (Cons p ps)
  show ?case
  proof (cases i)
    case 0
    with Cons.prems show ?thesis by simp
  next
    case (Suc i')
    with Cons.prems have "\<not> c p" by auto
    moreover have "find_slot c (Suc k) ps = Some (Suc k + i')"
    proof (rule Cons.IH)
      show "i' < length ps" using Cons.prems Suc by simp
      show "c (ps ! i')" using Cons.prems Suc by simp
      show "\<forall>j<i'. \<not> c (ps ! j)" using Cons.prems(3) Suc by auto
    qed
    ultimately show ?thesis using Suc by simp
  qed
qed

lemma find_slot_None: "find_slot c k ps = None \<Longrightarrow> p \<in> set ps \<Longrightarrow> \<not> c p"
  by (induction ps arbitrary: k) (auto split: if_splits)

lemma scan_children_Some:
  "scan_children c hk k ps = (Some i, hk') \<Longrightarrow>
     k \<le> i \<and> i - k < length ps \<and> parent (ps ! (i - k)) = Some c \<and>
     state (ps ! (i - k)) = ZOMBIE"
proof (induction ps arbitrary: k hk)
  case Nil
  then show ?case by simp
next
  case (Cons p ps)
  show ?case
  proof (cases "parent p = Some c \<and> state p = ZOMBIE")
    case True
    with Cons.prems show ?thesis by simp
  next
    case False
    then obtain h where "scan_children c h (Suc k) ps = (Some i, hk')"
      using Cons.prems by (auto split: if_splits)
    from Cons.IH [OF this]
    have ih: "Suc k \<le> i" "i - Suc k < length ps" "parent (ps ! (i - Suc k)) = Some c"
      "state (ps ! (i - Suc k)) = ZOMBIE" by simp_all
    then have "i - k = Suc (i - Suc k)" by simp
    with ih show ?thesis by simp
  qed
qed

subsection \<open>wait\<close>

lemma wait_body_reap:
  assumes "scan_children (curproc s) 0 0 (procs s) = (Some i, hk)"
  shows "wait_body s =
     (Some (pid (procs s ! i)),
      s\<lparr>ptable_lock := False,
        procs := (procs s)[i := (procs s ! i)\<lparr>kstack := 0, pid := 0, parent := None,
                                              name := [], killed := 0, state := UNUSED\<rparr>],
        trace := trace s @ [Kfree (kstack (procs s ! i)), Freevm (pgdir (procs s ! i)),
                            StateWrite i ZOMBIE UNUSED (ptable_lock s)]\<rparr>)"
proof -
  from scan_children_Some [OF assms]
  have i: "i < length (procs s)" and z: "state (procs s ! i) = ZOMBIE" by simp_all
  show ?thesis
    using i z
    by (simp add: wait_body_def assms Let_def set_slot_def set_state_def emit_def release_def)
qed

lemma wait_body_returns_pid:
  assumes "wait_body s = (Some r, s')" and "r \<noteq> - 1"
  shows "\<exists>i hk. scan_children (curproc s) 0 0 (procs s) = (Some i, hk)"
proof (cases "scan_children (curproc s) 0 0 (procs s)")
  case (Pair a hk)
  show ?thesis
  proof (cases a)
    case None
    with Pair assms show ?thesis
      by (auto simp: wait_body_def split: if_splits)
  next
    case (Some i)
    with Pair show ?thesis by simp
  qed
qed

text \<open>
  C1, as the code has it.  When a pass of \<^verbatim>\<open>wait\<close> returns a child's pid, the slot it
  reaped was a ZOMBIE child of the caller with that pid, and afterwards its state is UNUSED,
  its pid 0, its parent null and its kernel stack null.  Its \<^verbatim>\<open>pgdir\<close> field is not
  cleared: it still holds the page directory that was handed to \<^verbatim>\<open>freevm\<close>, thread or
  not.  The lock is released.
\<close>

theorem wait_reaped_slot:
  assumes "wait_body s = (Some r, s')" and "r \<noteq> - 1"
  shows "\<exists>i<length (procs s).
           parent (procs s ! i) = Some (curproc s) \<and> state (procs s ! i) = ZOMBIE \<and>
           pid (procs s ! i) = r \<and>
           state (procs s' ! i) = UNUSED \<and> pid (procs s' ! i) = 0 \<and>
           parent (procs s' ! i) = None \<and> kstack (procs s' ! i) = 0 \<and>
           pgdir (procs s' ! i) = pgdir (procs s ! i) \<and> \<not> ptable_lock s'"
proof -
  from wait_body_returns_pid [OF assms]
  obtain i hk where sc: "scan_children (curproc s) 0 0 (procs s) = (Some i, hk)" by blast
  from scan_children_Some [OF sc]
  have i: "i < length (procs s)" and par: "parent (procs s ! i) = Some (curproc s)"
    and z: "state (procs s ! i) = ZOMBIE" by simp_all
  from wait_body_reap [OF sc] assms(1)
  have r: "r = pid (procs s ! i)"
    and s': "s' = s\<lparr>ptable_lock := False,
        procs := (procs s)[i := (procs s ! i)\<lparr>kstack := 0, pid := 0, parent := None,
                                              name := [], killed := 0, state := UNUSED\<rparr>],
        trace := trace s @ [Kfree (kstack (procs s ! i)), Freevm (pgdir (procs s ! i)),
                            StateWrite i ZOMBIE UNUSED (ptable_lock s)]\<rparr>"
    by simp_all
  show ?thesis
    using i par z r by (intro exI [of _ i]) (simp add: s')
qed

lemmas ex_defs = table_def ex_caller_def ex_zombie_def ex_zombie_thread_def ex_sleeper_def
  zero_proc_def

lemmas op_defs = wait_def wait_body_def acquire_def release_def emit_def set_slot_def
  set_state_def Let_def

lemma wait_ex_zombie:
  "wait (table [ex_caller, ex_zombie 2]) =
     (Some 2,
      (table [ex_caller, (ex_zombie 2)\<lparr>kstack := 0, pid := 0, parent := None, name := [],
                                        killed := 0, state := UNUSED\<rparr>])
        \<lparr>trace := [Kfree 0x4000, Freevm 0x5000, StateWrite 1 ZOMBIE UNUSED True]\<rparr>)"
  by (simp add: op_defs ex_defs)

theorem wait_reaped_slot_witness:
  "\<exists>i<length (procs (acquire (table [ex_caller, ex_zombie 2]))).
     parent (procs (acquire (table [ex_caller, ex_zombie 2])) ! i)
       = Some (curproc (acquire (table [ex_caller, ex_zombie 2]))) \<and>
     state (procs (acquire (table [ex_caller, ex_zombie 2])) ! i) = ZOMBIE \<and>
     pid (procs (acquire (table [ex_caller, ex_zombie 2])) ! i) = 2 \<and>
     state (procs (snd (wait (table [ex_caller, ex_zombie 2]))) ! i) = UNUSED \<and>
     pid (procs (snd (wait (table [ex_caller, ex_zombie 2]))) ! i) = 0 \<and>
     parent (procs (snd (wait (table [ex_caller, ex_zombie 2]))) ! i) = None \<and>
     kstack (procs (snd (wait (table [ex_caller, ex_zombie 2]))) ! i) = 0 \<and>
     pgdir (procs (snd (wait (table [ex_caller, ex_zombie 2]))) ! i)
       = pgdir (procs (acquire (table [ex_caller, ex_zombie 2])) ! i) \<and>
     \<not> ptable_lock (snd (wait (table [ex_caller, ex_zombie 2])))"
proof -
  have w: "wait_body (acquire (table [ex_caller, ex_zombie 2]))
             = (Some 2, snd (wait (table [ex_caller, ex_zombie 2])))"
    by (simp add: op_defs ex_defs)
  have n: "(2::int) \<noteq> - 1" by simp
  show ?thesis by (rule wait_reaped_slot [OF w n])
qed

text \<open>
  C1 as the spec states it fails: after the caller has reaped an exited child that is not a
  thread, the child's \<^verbatim>\<open>pgdir\<close> field is not null.
\<close>

theorem wait_leaves_pgdir_counterexample:
  "fst (wait (table [ex_caller, ex_zombie 2])) = Some 2 \<and>
   athread (procs (table [ex_caller, ex_zombie 2]) ! 1) = 0 \<and>
   state (procs (snd (wait (table [ex_caller, ex_zombie 2]))) ! 1) = UNUSED \<and>
   pgdir (procs (snd (wait (table [ex_caller, ex_zombie 2]))) ! 1) = 0x5000 \<and>
   pgdir (procs (snd (wait (table [ex_caller, ex_zombie 2]))) ! 1) \<noteq> 0"
  by (simp add: wait_ex_zombie) (simp add: ex_defs)

text \<open>
  Whenever a pass of \<^verbatim>\<open>wait\<close> reaps a slot, it has called \<^verbatim>\<open>freevm\<close> on the page
  directory of that slot; \<^verbatim>\<open>athread\<close> plays no part.
\<close>

lemma wait_body_frees_pgdir:
  assumes "scan_children (curproc s) 0 0 (procs s) = (Some i, hk)"
  shows "Freevm (pgdir (procs s ! i)) \<in> set (trace (snd (wait_body s)))"
  by (simp add: wait_body_reap [OF assms])

text \<open>
  C2.  \<^verbatim>\<open>wait\<close> hands the page directory of the slot it reaps to \<^verbatim>\<open>freevm\<close> without
  looking at \<^verbatim>\<open>athread\<close>.  Here the caller reaps an exited thread of its own: the page
  directory that is freed is the one the caller itself runs on.
\<close>

theorem wait_frees_thread_pgdir:
  "athread (procs (table [ex_caller, ex_zombie_thread]) ! 1) = 1 \<and>
   pgdir (procs (table [ex_caller, ex_zombie_thread]) ! 1)
     = pgdir (procs (table [ex_caller, ex_zombie_thread]) ! 0) \<and>
   fst (wait (table [ex_caller, ex_zombie_thread])) = Some 2 \<and>
   trace (snd (wait (table [ex_caller, ex_zombie_thread])))
     = [Kfree 0x4000, Freevm 0x2000, StateWrite 1 ZOMBIE UNUSED True]"
  by (simp add: op_defs ex_defs)


subsection \<open>wakeup and kill\<close>

lemma nth_update_if: "j < length xs \<Longrightarrow> xs[i := x] ! j = (if i = j then x else xs ! j)"
  by (cases "i = j") simp_all

lemma map_update_same: "f y = f (ps ! i) \<Longrightarrow> map f (ps[i := y]) = map f ps"
  by (simp add: list_eq_iff_nth_eq nth_update_if)

lemma list_all_update:
  "list_all P ps \<Longrightarrow> (i < length ps \<Longrightarrow> P y) \<Longrightarrow> list_all P (ps[i := y])"
  by (auto simp: list_all_length nth_update_if)

lemma set_state_chan: "map chan (procs (set_state i st s)) = map chan (procs s)"
  by (simp add: set_state_def set_slot_def emit_def map_update_same)

lemma set_state_has_chan:
  "sleeping_has_chan s \<Longrightarrow> st \<noteq> SLEEPING \<Longrightarrow> sleeping_has_chan (set_state i st s)"
  by (simp add: sleeping_has_chan_def set_state_def set_slot_def emit_def list_all_update)

lemma wakeup1_chan: "map chan (procs (wakeup1 c s)) = map chan (procs s)"
proof -
  have "map chan (procs (fold (\<lambda>i s'. if state (procs s' ! i) = SLEEPING \<and> chan (procs s' ! i) = c
                   then set_state i RUNNABLE s' else s') xs t)) = map chan (procs t)" for xs t
    by (induction xs arbitrary: t) (simp_all add: set_state_chan)
  then show ?thesis by (simp add: wakeup1_def)
qed

lemma wakeup1_has_chan: "sleeping_has_chan s \<Longrightarrow> sleeping_has_chan (wakeup1 c s)"
proof -
  have "sleeping_has_chan t \<Longrightarrow>
        sleeping_has_chan (fold (\<lambda>i s'. if state (procs s' ! i) = SLEEPING \<and> chan (procs s' ! i) = c
                   then set_state i RUNNABLE s' else s') xs t)" for xs t
    by (induction xs arbitrary: t) (simp_all add: set_state_has_chan)
  then show "sleeping_has_chan s \<Longrightarrow> sleeping_has_chan (wakeup1 c s)"
    by (simp add: wakeup1_def)
qed

lemma wakeup1_procs:
  "procs (wakeup1 c s) =
     map (\<lambda>p. if state p = SLEEPING \<and> chan p = c then p\<lparr>state := RUNNABLE\<rparr> else p) (procs s)"
proof -
  define f where "f = (\<lambda>i s'. if state (procs s' ! i) = SLEEPING \<and> chan (procs s' ! i) = c
                   then set_state i RUNNABLE s' else s')"
  define g :: "proc \<Rightarrow> proc" where "g = (\<lambda>p. if state p = SLEEPING \<and> chan p = c then p\<lparr>state := RUNNABLE\<rparr> else p)"
  have step: "procs (f i t) = (procs t)[i := g (procs t ! i)]" for i t
    by (simp add: f_def g_def set_state_def set_slot_def emit_def)
  have "n \<le> length (procs s) \<Longrightarrow>
        procs (fold f [0..<n] s) = map g (take n (procs s)) @ drop n (procs s)" for n
  proof (induction n)
    case 0
    then show ?case by simp
  next
    case (Suc n)
    then have n: "n < length (procs s)" by simp
    with Suc.IH have ih: "procs (fold f [0..<n] s) = map g (take n (procs s)) @ drop n (procs s)"
      by simp
    have at: "(map g (take n (procs s)) @ drop n (procs s)) ! n = procs s ! n"
      using n by (simp add: nth_append)
    have "procs (fold f [0..<Suc n] s) =
            (map g (take n (procs s)) @ drop n (procs s))[n := g (procs s ! n)]"
      by (simp add: step ih at)
    also have "\<dots> = map g (take n (procs s)) @ (drop n (procs s))[0 := g (procs s ! n)]"
      using n by (simp add: list_update_append)
    also have "drop n (procs s) = procs s ! n # drop (Suc n) (procs s)"
      using n by (simp add: Cons_nth_drop_Suc)
    finally show ?case
      using n by (simp add: take_Suc_conv_app_nth)
  qed
  from this [of "length (procs s)"] show ?thesis
    by (simp add: wakeup1_def f_def g_def)
qed

lemma wakeup_procs:
  "procs (wakeup c s) =
     map (\<lambda>p. if state p = SLEEPING \<and> chan p = c then p\<lparr>state := RUNNABLE\<rparr> else p) (procs s)"
  by (simp add: wakeup_def release_def wakeup1_procs) (simp add: acquire_def)

lemma wakeup_unlocked: "\<not> ptable_lock (wakeup c s)"
  by (simp add: wakeup_def release_def)

lemma kill_chan: "map chan (procs (snd (kill pd s))) = map chan (procs s)"
proof -
  have k: "map chan (procs (set_slot i (\<lambda>p. p\<lparr>killed := 1\<rparr>) t)) = map chan (procs t)" for i t
    by (simp add: set_slot_def map_update_same)
  have r: "procs (release t) = procs t" for t
    by (simp add: release_def)
  have a: "procs (acquire s) = procs s"
    by (simp add: acquire_def)
  show ?thesis
    by (simp add: kill_def Let_def r k a set_state_chan split: option.splits)
qed

lemma kill_has_chan:
  assumes "sleeping_has_chan s"
  shows "sleeping_has_chan (snd (kill pd s))"
proof -
  have k: "sleeping_has_chan (set_slot i (\<lambda>p. p\<lparr>killed := 1\<rparr>) (acquire s))" for i
    using assms
    by (auto simp: sleeping_has_chan_def set_slot_def acquire_def list_all_length nth_update_if)
  have r: "sleeping_has_chan (release t) = sleeping_has_chan t" for t
    by (simp add: sleeping_has_chan_def release_def)
  have a: "sleeping_has_chan (acquire s)"
    using assms by (simp add: sleeping_has_chan_def acquire_def)
  show ?thesis
    by (simp add: kill_def Let_def r a k set_state_has_chan split: option.splits)
qed

lemma sleep_enter_has_chan:
  assumes "sleeping_has_chan s" and "c \<noteq> 0"
  shows "sleeping_has_chan (sleep_enter c lk s)"
  using assms
  by (auto simp: sleeping_has_chan_def sleep_enter_def Let_def set_state_def set_slot_def
      emit_def acquire_def list_all_length nth_update_if split: if_splits)

text \<open>
  C3, as the code has it.  A SLEEPING slot has a non-null wait channel, as long as
  \<^verbatim>\<open>sleep\<close> is called with one, and \<^verbatim>\<open>wakeup\<close> and \<^verbatim>\<open>kill\<close> keep it so.  Neither of
  them writes \<^verbatim>\<open>chan\<close>: a sleeper on \<open>c\<close> that \<^verbatim>\<open>wakeup\<close> promotes is RUNNABLE and its
  wait channel is still \<open>c\<close>.  The channel is cleared by the sleeper itself, in \<^verbatim>\<open>sleep\<close>
  after \<^verbatim>\<open>sched\<close> has returned.
\<close>

theorem sleeping_has_chan_kept:
  assumes "sleeping_has_chan s"
  shows "sleeping_has_chan (wakeup c s) \<and> sleeping_has_chan (snd (kill pd s)) \<and>
         (c' \<noteq> 0 \<longrightarrow> sleeping_has_chan (sleep_enter c' lk s)) \<and>
         map chan (procs (wakeup c s)) = map chan (procs s) \<and>
         map chan (procs (snd (kill pd s))) = map chan (procs s) \<and>
         (\<forall>j<length (procs s). state (procs s ! j) = SLEEPING \<and> chan (procs s ! j) = c \<longrightarrow>
            state (procs (wakeup c s) ! j) = RUNNABLE \<and> chan (procs (wakeup c s) ! j) = c)"
proof -
  have "sleeping_has_chan (wakeup c s)"
    using wakeup1_has_chan [of "acquire s" c] assms
    by (simp add: wakeup_def sleeping_has_chan_def release_def acquire_def)
  moreover have "map chan (procs (wakeup c s)) = map chan (procs s)"
    using wakeup1_chan [of c "acquire s"]
    by (simp add: wakeup_def release_def acquire_def)
  moreover have "\<forall>j<length (procs s). state (procs s ! j) = SLEEPING \<and> chan (procs s ! j) = c \<longrightarrow>
            state (procs (wakeup c s) ! j) = RUNNABLE \<and> chan (procs (wakeup c s) ! j) = c"
    by (simp add: wakeup_procs)
  ultimately show ?thesis
    using assms by (simp add: kill_has_chan kill_chan sleep_enter_has_chan)
qed

theorem sleeping_has_chan_kept_witness:
  "sleeping_has_chan (wakeup 7 (table [ex_caller, ex_sleeper])) \<and>
   sleeping_has_chan (snd (kill 2 (table [ex_caller, ex_sleeper]))) \<and>
   sleeping_has_chan (sleep_enter 9 True (table [ex_caller, ex_sleeper])) \<and>
   map chan (procs (wakeup 7 (table [ex_caller, ex_sleeper]))) = [0, 7] \<and>
   map chan (procs (snd (kill 2 (table [ex_caller, ex_sleeper])))) = [0, 7] \<and>
   state (procs (wakeup 7 (table [ex_caller, ex_sleeper])) ! 1) = RUNNABLE \<and>
   chan (procs (wakeup 7 (table [ex_caller, ex_sleeper])) ! 1) = 7"
proof -
  have h: "sleeping_has_chan (table [ex_caller, ex_sleeper])"
    by (simp add: sleeping_has_chan_def ex_defs)
  have p: "procs (table [ex_caller, ex_sleeper]) = [ex_caller, ex_sleeper]"
    by (simp add: table_def)
  have c: "map chan [ex_caller, ex_sleeper] = [0, 7]"
    by (simp add: ex_defs)
  have e: "state ex_sleeper = SLEEPING" "chan ex_sleeper = 7" "chan ex_caller = 0"
    by (simp_all add: ex_defs)
  from sleeping_has_chan_kept [OF h, of 7 2 9 True]
  show ?thesis by (simp add: p c e)
qed

text \<open>
  C3 as the spec states it fails.  The table satisfies "SLEEPING iff the wait channel is
  non-null"; after \<^verbatim>\<open>wakeup(7)\<close>, and after \<^verbatim>\<open>kill(2)\<close>, the lock is released, the
  sleeper is RUNNABLE and its wait channel is still 7.
\<close>

theorem wakeup_keeps_chan_counterexample:
  "sleeping_iff_chan (table [ex_caller, ex_sleeper]) \<and>
   \<not> ptable_lock (wakeup 7 (table [ex_caller, ex_sleeper])) \<and>
   state (procs (wakeup 7 (table [ex_caller, ex_sleeper])) ! 1) = RUNNABLE \<and>
   chan (procs (wakeup 7 (table [ex_caller, ex_sleeper])) ! 1) = 7 \<and>
   \<not> sleeping_iff_chan (wakeup 7 (table [ex_caller, ex_sleeper])) \<and>
   \<not> ptable_lock (snd (kill 2 (table [ex_caller, ex_sleeper]))) \<and>
   state (procs (snd (kill 2 (table [ex_caller, ex_sleeper]))) ! 1) = RUNNABLE \<and>
   chan (procs (snd (kill 2 (table [ex_caller, ex_sleeper]))) ! 1) = 7 \<and>
   \<not> sleeping_iff_chan (snd (kill 2 (table [ex_caller, ex_sleeper])))"
  by (simp add: sleeping_iff_chan_def wakeup_procs wakeup_unlocked kill_def op_defs ex_defs)

subsection \<open>kill\<close>

lemma kill_found:
  assumes "find_slot (\<lambda>p. pid p = pd) 0 (procs s) = Some i"
  shows "kill pd s =
     (0, s\<lparr>ptable_lock := False,
           procs := (procs s)[i := (procs s ! i)\<lparr>killed := 1,
                       state := (if state (procs s ! i) = SLEEPING then RUNNABLE
                                 else state (procs s ! i))\<rparr>],
           trace := trace s @ (if state (procs s ! i) = SLEEPING
                               then [StateWrite i SLEEPING RUNNABLE True] else [])\<rparr>)"
proof -
  from find_slot_Some [OF assms] have i: "i < length (procs s)" by simp
  show ?thesis
    using i assms
    by (simp add: kill_def acquire_def release_def set_slot_def set_state_def emit_def Let_def)
qed

text \<open>
  C10, as the code has it.  \<^verbatim>\<open>kill\<close> stops at the first slot whose pid field matches
  and never looks at whether the slot is in use.  When the lowest slot whose pid field is 0
  is an UNUSED slot, \<^verbatim>\<open>kill(0)\<close> returns 0 and sets \<^verbatim>\<open>killed\<close> on that slot, which stays
  UNUSED; \<^verbatim>\<open>killed\<close> of every other slot is as it was.
\<close>

theorem kill_zero_first_slot:
  assumes "i < length (procs s)" and "pid (procs s ! i) = 0" and "state (procs s ! i) = UNUSED"
    and "\<forall>j<i. pid (procs s ! j) \<noteq> 0"
  shows "fst (kill 0 s) = 0 \<and>
         killed (procs (snd (kill 0 s)) ! i) = 1 \<and>
         state (procs (snd (kill 0 s)) ! i) = UNUSED \<and>
         (\<forall>j. j \<noteq> i \<longrightarrow> killed (procs (snd (kill 0 s)) ! j) = killed (procs s ! j))"
proof -
  have "find_slot (\<lambda>p. pid p = 0) 0 (procs s) = Some (0 + i)"
    using assms by (intro find_slot_first) simp_all
  then have f: "find_slot (\<lambda>p. pid p = 0) 0 (procs s) = Some i" by simp
  show ?thesis
    using assms(1,3) by (simp add: kill_found [OF f])
qed

lemma ex_two_reaped_procs:
  "procs ex_two_reaped =
     [ex_caller,
      (ex_zombie 2)\<lparr>kstack := 0, pid := 0, parent := None, name := [], killed := 0,
                    state := UNUSED\<rparr>,
      (ex_zombie 3)\<lparr>kstack := 0, pid := 0, parent := None, name := [], killed := 0,
                    state := UNUSED\<rparr>]"
  by (simp add: ex_two_reaped_def op_defs ex_defs)

theorem kill_zero_first_slot_witness:
  "fst (kill 0 ex_two_reaped) = 0 \<and>
   killed (procs (snd (kill 0 ex_two_reaped)) ! 1) = 1 \<and>
   state (procs (snd (kill 0 ex_two_reaped)) ! 1) = UNUSED \<and>
   killed (procs (snd (kill 0 ex_two_reaped)) ! 0) = killed (procs ex_two_reaped ! 0) \<and>
   killed (procs (snd (kill 0 ex_two_reaped)) ! 2) = killed (procs ex_two_reaped ! 2)"
proof -
  have a: "1 < length (procs ex_two_reaped)" "pid (procs ex_two_reaped ! 1) = 0"
    "state (procs ex_two_reaped ! 1) = UNUSED"
    by (simp_all add: ex_two_reaped_procs ex_defs)
  have b: "\<forall>j<1. pid (procs ex_two_reaped ! j) \<noteq> 0"
    by (simp add: ex_two_reaped_procs ex_defs)
  from kill_zero_first_slot [OF a b] show ?thesis by simp
qed

text \<open>
  C10 as the spec states it fails for a reaped slot that is not the first with pid 0.  The
  caller has reaped the children in the slots 1 and 2; \<^verbatim>\<open>kill(0)\<close> returns 0, but the
  reaped slot 2 is not marked: its \<^verbatim>\<open>killed\<close> is still 0.
\<close>

theorem kill_zero_counterexample:
  "state (procs ex_two_reaped ! 2) = UNUSED \<and> pid (procs ex_two_reaped ! 2) = 0 \<and>
   fst (kill 0 ex_two_reaped) = 0 \<and>
   killed (procs (snd (kill 0 ex_two_reaped)) ! 1) = 1 \<and>
   killed (procs (snd (kill 0 ex_two_reaped)) ! 2) = 0"
proof -
  have f: "find_slot (\<lambda>p. pid p = 0) 0 (procs ex_two_reaped) = Some 1"
    by (simp add: ex_two_reaped_procs ex_defs)
  show ?thesis
    by (simp add: kill_found [OF f]) (simp add: ex_two_reaped_procs ex_defs)
qed


subsection \<open>User memory\<close>

lemma bytes_word:
  "(ucast (ucast v :: 8 word) :: addr) OR push_bit 8 (ucast (ucast (drop_bit 8 v) :: 8 word))
     OR push_bit 16 (ucast (ucast (drop_bit 16 v) :: 8 word))
     OR push_bit 24 (ucast (ucast (drop_bit 24 v) :: 8 word)) = v"
proof (rule bit_word_eqI)
  fix n
  assume n: "n < LENGTH(32)"
  consider "n < 8" | "8 \<le> n" "n < 16" | "16 \<le> n" "n < 24" | "24 \<le> n"
    by linarith
  then show "bit ((ucast (ucast v :: 8 word) :: addr)
       OR push_bit 8 (ucast (ucast (drop_bit 8 v) :: 8 word))
       OR push_bit 16 (ucast (ucast (drop_bit 16 v) :: 8 word))
       OR push_bit 24 (ucast (ucast (drop_bit 24 v) :: 8 word))) n = bit v n"
    using n by cases (auto simp: bit_simps)
qed

lemma read32_write32_same: "read32 (write32 a v m) a = v"
  by (simp add: read32_def write32_def bytes_word)

lemma bytes_apart:
  fixes a b :: addr
  assumes "a - b \<notin> {0, 1, 2, 3, - 1, - 2, - 3}"
  shows "a \<noteq> b" "a \<noteq> b + 1" "a \<noteq> b + 2" "a \<noteq> b + 3"
    "a + 1 \<noteq> b" "a + 1 \<noteq> b + 1" "a + 1 \<noteq> b + 2" "a + 1 \<noteq> b + 3"
    "a + 2 \<noteq> b" "a + 2 \<noteq> b + 1" "a + 2 \<noteq> b + 2" "a + 2 \<noteq> b + 3"
    "a + 3 \<noteq> b" "a + 3 \<noteq> b + 1" "a + 3 \<noteq> b + 2" "a + 3 \<noteq> b + 3"
  using assms by auto

lemma read32_write32_other:
  assumes "a - b \<notin> {0, 1, 2, 3, - 1, - 2, - 3}"
  shows "read32 (write32 b v m) a = read32 m a"
  using bytes_apart [OF assms] by (simp add: read32_def write32_def)

subsection \<open>signal_deliver\<close>

lemma unat_sub_cases:
  fixes x y :: addr
  shows "unat (x - y) = (if unat y \<le> unat x then unat x - unat y
                        else unat x + 4294967296 - unat y)"
  by (simp add: unat_sub_if_size word_size)

lemma apart_nat:
  fixes w :: addr
  assumes "4 \<le> unat w" and "unat w \<le> 4294967292"
  shows "w \<notin> {0, 1, 2, 3, - 1, - 2, - 3}"
proof -
  have m: "(- 1 :: addr) = 4294967295" "(- 2 :: addr) = 4294967294" "(- 3 :: addr) = 4294967293"
    by simp_all
  show ?thesis
    using assms unfolding m by auto
qed

lemma apart_word:
  fixes d n :: addr
  assumes "d = 0 \<or> 108 \<le> d" and "4 \<le> n" and "n \<le> 104"
  shows "n - d \<notin> {0, 1, 2, 3, - 1, - 2, - 3}" and "d - n \<notin> {0, 1, 2, 3, - 1, - 2, - 3}"
proof -
  have N: "4 \<le> unat n" "unat n \<le> 104"
    using assms(2,3) by (simp_all add: word_le_nat_alt)
  have D: "unat d = 0 \<or> 108 \<le> unat d"
    using assms(1) by (auto simp: word_le_nat_alt)
  have L: "unat d < 4294967296"
    using unsigned_less [of d, where 'a = nat] by simp
  have "4 \<le> unat (n - d) \<and> unat (n - d) \<le> 4294967292"
    using N D L by (auto simp: unat_sub_cases)
  then show "n - d \<notin> {0, 1, 2, 3, - 1, - 2, - 3}"
    by (intro apart_nat) simp_all
  have "4 \<le> unat (d - n) \<and> unat (d - n) \<le> 4294967292"
    using N D L by (auto simp: unat_sub_cases)
  then show "d - n \<notin> {0, 1, 2, 3, - 1, - 2, - 3}"
    by (intro apart_nat) simp_all
qed

text \<open>
  A store into the signal frame leaves the words of the trap frame as they are, and a store
  into the trap frame leaves the words of the signal frame as they are, when the two do not
  overlap.
\<close>

lemma read_tf_past_frame:
  assumes "frame_apart sp t" and "4 \<le> o' + c" and "o' + c \<le> 104"
  shows "read32 (write32 (sp - c) v m) (t + o') = read32 m (t + o')"
proof (rule read32_write32_other)
  have e: "t + o' - (sp - c) = o' + c - (sp - t)"
    by simp
  from assms(1) have "sp - t = 0 \<or> 108 \<le> sp - t"
    by (auto simp: frame_apart_def tf_size_def)
  then show "t + o' - (sp - c) \<notin> {0, 1, 2, 3, - 1, - 2, - 3}"
    unfolding e using assms(2,3) by (rule apart_word(1))
qed

lemma read_frame_past_tf:
  assumes "frame_apart sp t" and "4 \<le> o' + c" and "o' + c \<le> 104"
  shows "read32 (write32 (t + o') v m) (sp - c) = read32 m (sp - c)"
proof (rule read32_write32_other)
  have e: "sp - c - (t + o') = sp - t - (o' + c)"
    by simp
  from assms(1) have "sp - t = 0 \<or> 108 \<le> sp - t"
    by (auto simp: frame_apart_def tf_size_def)
  then show "sp - c - (t + o') \<notin> {0, 1, 2, 3, - 1, - 2, - 3}"
    unfolding e using assms(2,3) by (rule apart_word(2))
qed

lemmas tf_offsets = tf_edx_def tf_ecx_def tf_eax_def tf_eip_def tf_esp_def

lemmas mem_simps = read32_write32_same read32_write32_other read_tf_past_frame
  read_frame_past_tf

lemma signal_frame_apart:
  assumes c: "curproc s < length (procs s)"
    and sep: "frame_apart (esp (tf (procs s ! curproc s))) (tf_addr (procs s ! curproc s))"
  shows "frame_words (umem (signal_frame sg cr2 getprot info0 signum s))
           (esp (tf (procs s ! curproc s))) =
         [eip (tf (procs s ! curproc s)), eax (tf (procs s ! curproc s)),
          ecx (tf (procs s ! curproc s)), edx (tf (procs s ! curproc s)),
          (if signum = SIGSEGV sg then getprot (pgdir (procs s ! curproc s)) cr2
           else info_type info0),
          (if signum = SIGSEGV sg then cr2 else info_addr info0),
          word_of_int signum, restorer_addr (procs s ! curproc s)]"
    and "procs (signal_frame sg cr2 getprot info0 signum s) =
         (procs s)[curproc s := (procs s ! curproc s)
            \<lparr>tf := \<lparr>eax = eax (tf (procs s ! curproc s)), ecx = ecx (tf (procs s ! curproc s)),
                    edx = edx (tf (procs s ! curproc s)), eip = eip (tf (procs s ! curproc s)),
                    esp = esp (tf (procs s ! curproc s)) - 32\<rparr>\<rparr>]"
    and "curproc (signal_frame sg cr2 getprot info0 signum s) = curproc s"
  using c sep
  by (simp_all add: signal_frame_def frame_words_def tf_to_mem_def tf_of_mem_def tf_offsets
      set_slot_def Let_def mem_simps cong: let_weak_cong)


lemma tf_addr_tf_update: "tf_addr (p\<lparr>tf := r\<rparr>) = tf_addr p"
  by (simp add: tf_addr_def)

text \<open>
  What \<^verbatim>\<open>signal_deliver\<close> leaves when the 32 bytes below the stack pointer and the trap
  frame do not overlap.
\<close>

lemma signal_deliver_apart:
  assumes "curproc s < length (procs s)"
    and "frame_apart (esp (tf (procs s ! curproc s))) (tf_addr (procs s ! curproc s))"
  shows "frame_words (umem (signal_frame sg cr2 getprot info0 signum s))
           (esp (tf (procs s ! curproc s))) =
         [eip (tf (procs s ! curproc s)), eax (tf (procs s ! curproc s)),
          ecx (tf (procs s ! curproc s)), edx (tf (procs s ! curproc s)),
          (if signum = SIGSEGV sg then getprot (pgdir (procs s ! curproc s)) cr2
           else info_type info0),
          (if signum = SIGSEGV sg then cr2 else info_addr info0),
          word_of_int signum, restorer_addr (procs s ! curproc s)] \<and>
         esp (tf (procs (signal_frame sg cr2 getprot info0 signum s) ! curproc s)) =
           esp (tf (procs s ! curproc s)) - 32 \<and>
         (0 \<le> signum \<and> nat signum < length (handlers (procs s ! curproc s)) \<longrightarrow>
            (\<exists>s'. signal_deliver sg cr2 getprot info0 signum s = Some s' \<and>
               frame_words (umem s') (esp (tf (procs s ! curproc s))) =
                 [eip (tf (procs s ! curproc s)), eax (tf (procs s ! curproc s)),
                  ecx (tf (procs s ! curproc s)), edx (tf (procs s ! curproc s)),
                  (if signum = SIGSEGV sg then getprot (pgdir (procs s ! curproc s)) cr2
                   else info_type info0),
                  (if signum = SIGSEGV sg then cr2 else info_addr info0),
                  word_of_int signum, restorer_addr (procs s ! curproc s)] \<and>
               esp (tf (procs s' ! curproc s')) = esp (tf (procs s ! curproc s)) - 32 \<and>
               eip (tf (procs s' ! curproc s')) = handlers (procs s ! curproc s) ! nat signum))"
proof (intro conjI impI)
  note f = signal_frame_apart [OF assms, of sg cr2 getprot info0 signum]
  show "frame_words (umem (signal_frame sg cr2 getprot info0 signum s))
           (esp (tf (procs s ! curproc s))) =
         [eip (tf (procs s ! curproc s)), eax (tf (procs s ! curproc s)),
          ecx (tf (procs s ! curproc s)), edx (tf (procs s ! curproc s)),
          (if signum = SIGSEGV sg then getprot (pgdir (procs s ! curproc s)) cr2
           else info_type info0),
          (if signum = SIGSEGV sg then cr2 else info_addr info0),
          word_of_int signum, restorer_addr (procs s ! curproc s)]"
    by (rule f(1))
  show "esp (tf (procs (signal_frame sg cr2 getprot info0 signum s) ! curproc s)) =
           esp (tf (procs s ! curproc s)) - 32"
    using assms(1) by (simp add: f(2))
  assume r: "0 \<le> signum \<and> nat signum < length (handlers (procs s ! curproc s))"
  show "\<exists>s'. signal_deliver sg cr2 getprot info0 signum s = Some s' \<and>
               frame_words (umem s') (esp (tf (procs s ! curproc s))) =
                 [eip (tf (procs s ! curproc s)), eax (tf (procs s ! curproc s)),
                  ecx (tf (procs s ! curproc s)), edx (tf (procs s ! curproc s)),
                  (if signum = SIGSEGV sg then getprot (pgdir (procs s ! curproc s)) cr2
                   else info_type info0),
                  (if signum = SIGSEGV sg then cr2 else info_addr info0),
                  word_of_int signum, restorer_addr (procs s ! curproc s)] \<and>
               esp (tf (procs s' ! curproc s')) = esp (tf (procs s ! curproc s)) - 32 \<and>
               eip (tf (procs s' ! curproc s')) = handlers (procs s ! curproc s) ! nat signum"
    using assms r
    by (simp add: signal_deliver_def signal_frame_def frame_words_def tf_to_mem_def
        tf_of_mem_def tf_offsets tf_addr_tf_update set_slot_def Let_def mem_simps
        cong: let_weak_cong)
qed

text \<open>A stack pointer in user space keeps the frame off the trap frame in the kernel.\<close>

lemma user_stack_apart:
  assumes "32 \<le> sp" and "sp \<le> KERNBASE" and "KERNBASE \<le> t" and "t \<le> - tf_size"
  shows "frame_apart sp t"
proof (cases "sp = t")
  case True
  then show ?thesis by (simp add: frame_apart_def)
next
  case False
  have m: "(- 76 :: addr) = 4294967220"
    by simp
  have a: "unat sp \<le> 2147483648" "2147483648 \<le> unat t" "unat t \<le> 4294967220" "32 \<le> unat sp"
    using assms unfolding tf_size_def m by (simp_all add: word_le_nat_alt KERNBASE_def)
  from False have "unat sp \<noteq> unat t"
    by (simp add: word_unat_eq_iff)
  with a have "108 \<le> unat (sp - t)"
    by (auto simp: unat_sub_cases)
  then show ?thesis
    by (simp add: frame_apart_def tf_size_def word_le_nat_alt)
qed

text \<open>
  C6, as the code has it.  When the 32 bytes below the stack pointer \<open>esp\<close> that
  \<^verbatim>\<open>signal_deliver\<close> finds in the trap frame lie in user space, below the kernel base,
  and the trap frame lies in the kernel's region, the call leaves on the stack the saved eip
  at \<open>esp - 4\<close>, eax at \<open>esp - 8\<close>, ecx at \<open>esp - 12\<close>, edx at \<open>esp - 16\<close>, the two words
  of the signal info at \<open>esp - 24\<close> and \<open>esp - 20\<close>, the signal number at \<open>esp - 28\<close> and
  the restorer address at \<open>esp - 32\<close>, and sets the trap frame's esp to \<open>esp - 32\<close>,
  whatever the signal number.  For a signal number that indexes \<^verbatim>\<open>handlers\<close> the call
  returns, with that frame and stack pointer and with the trap frame's eip set to the
  handler of the signal.
\<close>

theorem signal_deliver_frame:
  assumes "curproc s < length (procs s)"
    and "32 \<le> esp (tf (procs s ! curproc s))" and "esp (tf (procs s ! curproc s)) \<le> KERNBASE"
    and "KERNBASE \<le> tf_addr (procs s ! curproc s)"
    and "tf_addr (procs s ! curproc s) \<le> - tf_size"
  shows "frame_words (umem (signal_frame sg cr2 getprot info0 signum s))
           (esp (tf (procs s ! curproc s))) =
         [eip (tf (procs s ! curproc s)), eax (tf (procs s ! curproc s)),
          ecx (tf (procs s ! curproc s)), edx (tf (procs s ! curproc s)),
          (if signum = SIGSEGV sg then getprot (pgdir (procs s ! curproc s)) cr2
           else info_type info0),
          (if signum = SIGSEGV sg then cr2 else info_addr info0),
          word_of_int signum, restorer_addr (procs s ! curproc s)] \<and>
         esp (tf (procs (signal_frame sg cr2 getprot info0 signum s) ! curproc s)) =
           esp (tf (procs s ! curproc s)) - 32 \<and>
         (0 \<le> signum \<and> nat signum < length (handlers (procs s ! curproc s)) \<longrightarrow>
            (\<exists>s'. signal_deliver sg cr2 getprot info0 signum s = Some s' \<and>
               frame_words (umem s') (esp (tf (procs s ! curproc s))) =
                 [eip (tf (procs s ! curproc s)), eax (tf (procs s ! curproc s)),
                  ecx (tf (procs s ! curproc s)), edx (tf (procs s ! curproc s)),
                  (if signum = SIGSEGV sg then getprot (pgdir (procs s ! curproc s)) cr2
                   else info_type info0),
                  (if signum = SIGSEGV sg then cr2 else info_addr info0),
                  word_of_int signum, restorer_addr (procs s ! curproc s)] \<and>
               esp (tf (procs s' ! curproc s')) = esp (tf (procs s ! curproc s)) - 32 \<and>
               eip (tf (procs s' ! curproc s')) = handlers (procs s ! curproc s) ! nat signum))"
  by (rule signal_deliver_apart [OF assms(1) user_stack_apart [OF assms(2-5)]])

theorem signal_deliver_frame_witness:
  "frame_words (umem (signal_frame ex_signums 0x1234 ex_getprot ex_info 2 (table [ex_signalled])))
     0x2FF0 = [0x400, 0x11, 0x22, 0x33, 5, 0x1234, 2, 0x600] \<and>
   esp (tf (procs (signal_frame ex_signums 0x1234 ex_getprot ex_info 2 (table [ex_signalled])) ! 0))
     = 0x2FD0 \<and>
   (\<exists>s'. signal_deliver ex_signums 0x1234 ex_getprot ex_info 2 (table [ex_signalled]) = Some s' \<and>
      frame_words (umem s') 0x2FF0 = [0x400, 0x11, 0x22, 0x33, 5, 0x1234, 2, 0x600] \<and>
      esp (tf (procs s' ! curproc s')) = 0x2FD0 \<and>
      eip (tf (procs s' ! curproc s')) = 0x500)"
proof -
  have v: "procs (table [ex_signalled]) ! curproc (table [ex_signalled]) = ex_signalled"
    "procs (table [ex_signalled]) ! 0 = ex_signalled"
    "curproc (table [ex_signalled]) = 0"
    by (simp_all add: table_def)
  have r: "tf ex_signalled = \<lparr>eax = 0x11, ecx = 0x22, edx = 0x33, eip = 0x400, esp = 0x2FF0\<rparr>"
    "handlers ex_signalled = [0xFFFFFFFF, 0xFFFFFFFF, 0x500, 0]"
    "restorer_addr ex_signalled = 0x600" "tf_addr ex_signalled = 0x8DFFFFB4"
    by (simp_all add: ex_signalled_def zero_proc_def tf_addr_def KSTACKSIZE_def tf_size_def)
  have a: "curproc (table [ex_signalled]) < length (procs (table [ex_signalled]))"
    by (simp add: table_def)
  have b: "32 \<le> esp (tf (procs (table [ex_signalled]) ! curproc (table [ex_signalled])))"
    "esp (tf (procs (table [ex_signalled]) ! curproc (table [ex_signalled]))) \<le> KERNBASE"
    "KERNBASE \<le> tf_addr (procs (table [ex_signalled]) ! curproc (table [ex_signalled]))"
    "tf_addr (procs (table [ex_signalled]) ! curproc (table [ex_signalled])) \<le> - tf_size"
    by (simp_all add: v r KERNBASE_def tf_size_def)
  from signal_deliver_frame [OF a b, of ex_signums "0x1234" ex_getprot ex_info 2]
  show ?thesis
    by (simp add: v r ex_signums_def ex_getprot_def)
qed

text \<open>
  C6 as the spec states it fails when the stack pointer lies in the trap frame.  Here it
  is the address just above the saved eax: the first store puts the old eip over the saved
  eax, each later statement reads the register that the store before it has overwritten,
  and the words at \<open>esp - 8\<close>, \<open>esp - 12\<close> and \<open>esp - 16\<close> all hold the old eip
  \<open>0x400\<close>, not eax, ecx and edx.
\<close>

theorem signal_deliver_overlap_counterexample:
  "tf (procs (table [ex_signalled_in_tf]) ! 0) =
     \<lparr>eax = 0x11, ecx = 0x22, edx = 0x33, eip = 0x400, esp = 0x8DFFFFD4\<rparr> \<and>
   signal_deliver ex_signums 0x1234 ex_getprot ex_info 2 (table [ex_signalled_in_tf]) \<noteq> None \<and>
   frame_words
     (umem (the (signal_deliver ex_signums 0x1234 ex_getprot ex_info 2
                  (table [ex_signalled_in_tf])))) 0x8DFFFFD4 =
     [0x400, 0x400, 0x400, 0x400, 5, 0x1234, 2, 0x600]"
  by (simp add: signal_deliver_def signal_frame_def frame_words_def tf_to_mem_def
      tf_of_mem_def tf_offsets tf_addr_def KSTACKSIZE_def tf_size_def set_slot_def Let_def
      ex_signalled_in_tf_def ex_signalled_def zero_proc_def table_def ex_signums_def
      ex_getprot_def read32_write32_same read32_write32_other cong: let_weak_cong)

subsection \<open>mprotect\<close>

lemma wrap_int_id: "INT_MIN \<le> x \<Longrightarrow> x \<le> INT_MAX \<Longrightarrow> wrap_int x = x"
  by (simp add: wrap_int_def INT_MIN_def INT_MAX_def sint_sbintrunc' signed_take_bit_int_eq_self)

lemma ex_shift: "\<not> P 0 \<Longrightarrow> (\<exists>k. P (Suc k)) = (\<exists>k::nat. P k)"
  by (metis not0_implies_Suc)

lemma mprotect_loop_result:
  assumes acc: "\<forall>vm x. (fst (f vm pd x prot) \<noteq> 0) = (\<not> accepts x)"
    and hi: "lim \<le> INT_MAX"
    and lo: "INT_MIN \<le> i"
    and ok: "lim \<le> INT_MAX - PGSIZE + 1 \<or>
             (\<exists>k::nat. i + int k * PGSIZE < lim \<and> \<not> accepts (word_of_int (i + int k * PGSIZE)))"
  shows "\<exists>r vm'. mprotect_loop f pd prot lim i vm = Some (r, vm') \<and> (r = 0 \<or> r = - 1) \<and>
           ((r = - 1) = (\<exists>k::nat. i + int k * PGSIZE < lim \<and>
                           \<not> accepts (word_of_int (i + int k * PGSIZE))))"
  using lo ok
proof (induction "nat (lim - i)" arbitrary: i vm rule: less_induct)
  case less
  show ?case
  proof (cases "i < lim")
    case False
    have "\<not> (i + int k * PGSIZE < lim)" for k
      using False by (simp add: PGSIZE_def)
    with False show ?thesis
      by (subst mprotect_loop.simps) simp
  next
    case True
    show ?thesis
    proof (cases "fst (f vm pd (word_of_int i) prot) \<noteq> 0")
      case bad: True
      then have "\<not> accepts (word_of_int i)"
        using acc by blast
      then have "\<exists>k::nat. i + int k * PGSIZE < lim \<and>
                   \<not> accepts (word_of_int (i + int k * PGSIZE))"
        using True by (intro exI [of _ 0]) simp
      with True bad show ?thesis
        by (subst mprotect_loop.simps) (simp add: Let_def)
    next
      case good: False
      then have a: "accepts (word_of_int i)"
        using acc by blast
      have e: "i + PGSIZE + int k * PGSIZE = i + int (Suc k) * PGSIZE" for k
        by (simp add: algebra_simps)
      have sh: "(\<exists>k::nat. i + int (Suc k) * PGSIZE < lim \<and>
                \<not> accepts (word_of_int (i + int (Suc k) * PGSIZE)))
          = (\<exists>k::nat. i + int k * PGSIZE < lim \<and> \<not> accepts (word_of_int (i + int k * PGSIZE)))"
        by (rule ex_shift) (simp add: a)
      have fit: "i + PGSIZE \<le> INT_MAX"
      proof -
        from less.prems(2) show ?thesis
        proof
          assume "lim \<le> INT_MAX - PGSIZE + 1"
          with True show ?thesis by simp
        next
          assume "\<exists>k::nat. i + int k * PGSIZE < lim \<and>
                    \<not> accepts (word_of_int (i + int k * PGSIZE))"
          with sh obtain k where "i + int (Suc k) * PGSIZE < lim" by blast
          then have "i + PGSIZE < lim"
            by (simp add: PGSIZE_def algebra_simps)
          with hi show ?thesis by simp
        qed
      qed
      have w: "wrap_int (i + PGSIZE) = i + PGSIZE"
        using less.prems(1) fit by (intro wrap_int_id) (simp_all add: PGSIZE_def)
      have m: "nat (lim - (i + PGSIZE)) < nat (lim - i)"
        using True by (simp add: PGSIZE_def)
      have lo': "INT_MIN \<le> i + PGSIZE"
        using less.prems(1) by (simp add: PGSIZE_def)
      have ok': "lim \<le> INT_MAX - PGSIZE + 1 \<or>
             (\<exists>k::nat. i + PGSIZE + int k * PGSIZE < lim \<and>
                        \<not> accepts (word_of_int (i + PGSIZE + int k * PGSIZE)))"
        using less.prems(2) sh by (simp only: e)
      from less.hyps [OF m lo' ok', of "snd (f vm pd (word_of_int i) prot)"]
      obtain r vm' where
        r: "mprotect_loop f pd prot lim (i + PGSIZE) (snd (f vm pd (word_of_int i) prot))
              = Some (r, vm')"
          "r = 0 \<or> r = - 1"
          "(r = - 1) = (\<exists>k::nat. i + PGSIZE + int k * PGSIZE < lim \<and>
                           \<not> accepts (word_of_int (i + PGSIZE + int k * PGSIZE)))"
        by blast
      from r(3) sh have "(r = - 1) = (\<exists>k::nat. i + int k * PGSIZE < lim \<and>
                           \<not> accepts (word_of_int (i + int k * PGSIZE)))"
        by (simp only: e)
      with r(1,2) True good w show ?thesis
        by (subst mprotect_loop.simps) (simp add: Let_def)
    qed
  qed
qed

lemma sint_in_range: "INT_MIN \<le> sint (a :: addr) \<and> sint a \<le> INT_MAX"
  using sint_ge [of a] sint_lt [of a] by (simp add: INT_MIN_def INT_MAX_def)

lemma mprotect_unaligned:
  "sint a smod PGSIZE \<noteq> 0 \<Longrightarrow> mprotect f s a len prot vm = Some (- 1, vm)"
  by (simp add: mprotect_def)

lemma mprotect_zero_length:
  assumes "sint a smod PGSIZE = 0"
  shows "mprotect f s a 0 prot vm = Some (0, vm)"
proof -
  have "mprotect_loop f pd prot (sint a) (sint a) vm = Some (0, vm)" for pd
    by (subst mprotect_loop.simps) simp
  with assms sint_in_range [of a] show ?thesis
    by (simp add: mprotect_def wrap_int_id)
qed

text \<open>
  Where the signed arithmetic of \<^verbatim>\<open>mprotect\<close> overflows.  When \<^verbatim>\<open>(int) addr + len\<close>
  passes the largest \<^verbatim>\<open>int\<close>, the bound wraps to a negative number, the loop does not
  run, and \<^verbatim>\<open>mprotect\<close> returns 0 without a call of \<^verbatim>\<open>applyprot\<close>, whatever the pages
  of the range accept.
\<close>

lemma wrap_int_above:
  assumes "INT_MAX < x" and "x \<le> 2 * INT_MAX + 1"
  shows "wrap_int x = x - 2 ^ 32"
proof -
  have "wrap_int x = (x + 2 ^ 31) mod 2 ^ 32 - 2 ^ 31"
    by (simp add: wrap_int_def sint_sbintrunc' signed_take_bit_eq_take_bit_shift take_bit_eq_mod)
  moreover have "(x + 2 ^ 31 - 2 ^ 32) mod 2 ^ 32 = x + 2 ^ 31 - 2 ^ 32"
    using assms by (intro mod_pos_pos_trivial) (simp_all add: INT_MAX_def)
  then have "(x + 2 ^ 31) mod 2 ^ 32 = x + 2 ^ 31 - 2 ^ 32"
    by (simp only: minus_mod_self2)
  ultimately show ?thesis by simp
qed

lemma mprotect_sum_overflow:
  assumes "sint a smod PGSIZE = 0" and "INT_MAX < sint a + len" and "len \<le> INT_MAX"
  shows "mprotect f s a len prot vm = Some (0, vm)"
proof -
  have "sint a + len \<le> 2 * INT_MAX + 1"
    using sint_in_range [of a] assms(3) by simp
  from wrap_int_above [OF assms(2) this]
  have "wrap_int (sint a + len) \<le> sint a"
    using assms(3) by (simp add: INT_MAX_def)
  then have "mprotect_loop f pd prot (wrap_int (sint a + len)) (sint a) vm = Some (0, vm)" for pd
    by (subst mprotect_loop.simps) simp
  with assms(1) show ?thesis
    by (simp add: mprotect_def)
qed

text \<open>
  C9, as the code has it.  For a page-aligned address, \<^verbatim>\<open>mprotect(a, 0, prot)\<close> calls
  nothing and returns 0.  For an address that is not page-aligned \<^verbatim>\<open>mprotect\<close> returns
  -1 whatever the length, 0 included, and calls nothing.  When \<^verbatim>\<open>(int) a + len\<close> does
  not overflow, and the range either ends at or below the last page boundary under the
  largest \<^verbatim>\<open>int\<close> or holds a page that does not accept the protection, and whether
  \<^verbatim>\<open>applyprot\<close> fails on a page does not depend on the calls made before,
  \<^verbatim>\<open>mprotect\<close> returns 0 or -1, and -1 exactly when \<open>a\<close> is not page-aligned or one of
  the pages \<open>a + k * PGSIZE\<close> below \<open>a + len\<close> does not accept the protection.
\<close>

theorem mprotect_result:
  "(sint a smod PGSIZE = 0 \<longrightarrow> mprotect f s a 0 prot vm = Some (0, vm)) \<and>
   (sint a smod PGSIZE \<noteq> 0 \<longrightarrow> mprotect f s a len prot vm = Some (- 1, vm)) \<and>
   ((\<forall>vm x. (fst (f vm (pgdir (procs s ! curproc s)) x prot) \<noteq> 0) = (\<not> accepts x)) \<and>
    INT_MIN \<le> sint a + len \<and> sint a + len \<le> INT_MAX \<and>
    (sint a + len \<le> INT_MAX - PGSIZE + 1 \<or>
     (\<exists>k::nat. sint a + int k * PGSIZE < sint a + len \<and>
                \<not> accepts (word_of_int (sint a + int k * PGSIZE)))) \<longrightarrow>
      (\<exists>r vm'. mprotect f s a len prot vm = Some (r, vm') \<and> (r = 0 \<or> r = - 1) \<and>
         ((r = - 1) =
            (sint a smod PGSIZE \<noteq> 0 \<or>
             (\<exists>k::nat. sint a + int k * PGSIZE < sint a + len \<and>
                        \<not> accepts (word_of_int (sint a + int k * PGSIZE)))))))"
proof (intro conjI impI)
  assume "sint a smod PGSIZE = 0"
  then show "mprotect f s a 0 prot vm = Some (0, vm)"
    by (rule mprotect_zero_length)
next
  assume "sint a smod PGSIZE \<noteq> 0"
  then show "mprotect f s a len prot vm = Some (- 1, vm)"
    by (rule mprotect_unaligned)
next
  assume h: "(\<forall>vm x. (fst (f vm (pgdir (procs s ! curproc s)) x prot) \<noteq> 0) = (\<not> accepts x)) \<and>
    INT_MIN \<le> sint a + len \<and> sint a + len \<le> INT_MAX \<and>
    (sint a + len \<le> INT_MAX - PGSIZE + 1 \<or>
     (\<exists>k::nat. sint a + int k * PGSIZE < sint a + len \<and>
                \<not> accepts (word_of_int (sint a + int k * PGSIZE))))"
  show "\<exists>r vm'. mprotect f s a len prot vm = Some (r, vm') \<and> (r = 0 \<or> r = - 1) \<and>
         ((r = - 1) =
            (sint a smod PGSIZE \<noteq> 0 \<or>
             (\<exists>k::nat. sint a + int k * PGSIZE < sint a + len \<and>
                        \<not> accepts (word_of_int (sint a + int k * PGSIZE)))))"
  proof (cases "sint a smod PGSIZE = 0")
    case False
    then show ?thesis by (simp add: mprotect_unaligned)
  next
    case True
    from h have acc: "\<forall>vm x. (fst (f vm (pgdir (procs s ! curproc s)) x prot) \<noteq> 0) = (\<not> accepts x)"
      and lo: "INT_MIN \<le> sint a + len" and hi: "sint a + len \<le> INT_MAX"
      and ok: "sint a + len \<le> INT_MAX - PGSIZE + 1 \<or>
         (\<exists>k::nat. sint a + int k * PGSIZE < sint a + len \<and>
                    \<not> accepts (word_of_int (sint a + int k * PGSIZE)))"
      by simp_all
    have w: "wrap_int (sint a + len) = sint a + len"
      using lo hi by (rule wrap_int_id)
    have lo': "INT_MIN \<le> sint a"
      using sint_in_range [of a] by simp
    from mprotect_loop_result [where f = f and pd = "pgdir (procs s ! curproc s)"
        and prot = prot and accepts = accepts and lim = "sint a + len" and i = "sint a"
        and vm = vm, OF acc hi lo' ok]
    show ?thesis
      using True by (simp add: mprotect_def w)
  qed
qed

lemma ex_applyprot_accepts:
  "\<forall>vm x. (fst (ex_applyprot vm pd x prot) \<noteq> 0) = (\<not> ex_accepts x)"
  by (auto simp: ex_applyprot_def ex_accepts_def)

theorem mprotect_result_witness:
  "mprotect ex_applyprot (table [ex_caller]) 0x2000 0 1 0 = Some (0, 0) \<and>
   mprotect ex_applyprot (table [ex_caller]) 0x2001 0x2000 1 0 = Some (- 1, 0) \<and>
   (\<exists>r vm'. mprotect ex_applyprot (table [ex_caller]) 0x2000 0x2000 1 0 = Some (r, vm') \<and>
      (r = 0 \<or> r = - 1) \<and>
      ((r = - 1) =
         (sint (0x2000 :: addr) smod PGSIZE \<noteq> 0 \<or>
          (\<exists>k::nat. sint (0x2000 :: addr) + int k * PGSIZE < sint (0x2000 :: addr) + 0x2000 \<and>
                     \<not> ex_accepts (word_of_int (sint (0x2000 :: addr) + int k * PGSIZE)))))) \<and>
   (\<exists>r vm'. mprotect ex_applyprot (table [ex_caller]) 0x3000 0x7FFFCFFF 1 0 = Some (r, vm') \<and>
      (r = 0 \<or> r = - 1) \<and>
      ((r = - 1) =
         (sint (0x3000 :: addr) smod PGSIZE \<noteq> 0 \<or>
          (\<exists>k::nat. sint (0x3000 :: addr) + int k * PGSIZE < sint (0x3000 :: addr) + 0x7FFFCFFF \<and>
                     \<not> ex_accepts (word_of_int (sint (0x3000 :: addr) + int k * PGSIZE))))))"
proof -
  have al: "sint (0x2000 :: addr) smod PGSIZE = 0"
    by (simp add: PGSIZE_def signed_modulo_int_def)
  have un: "sint (0x2001 :: addr) smod PGSIZE \<noteq> 0"
    by (simp add: PGSIZE_def signed_modulo_int_def)
  have rg: "INT_MIN \<le> sint (0x2000 :: addr) + 0x2000"
    "sint (0x2000 :: addr) + 0x2000 \<le> INT_MAX"
    "sint (0x2000 :: addr) + 0x2000 \<le> INT_MAX - PGSIZE + 1"
    by (simp_all add: INT_MIN_def INT_MAX_def PGSIZE_def)
  have rg': "INT_MIN \<le> sint (0x3000 :: addr) + 0x7FFFCFFF"
    "sint (0x3000 :: addr) + 0x7FFFCFFF \<le> INT_MAX"
    by (simp_all add: INT_MIN_def INT_MAX_def)
  have rf: "\<exists>k::nat. sint (0x3000 :: addr) + int k * PGSIZE < sint (0x3000 :: addr) + 0x7FFFCFFF \<and>
                     \<not> ex_accepts (word_of_int (sint (0x3000 :: addr) + int k * PGSIZE))"
    by (intro exI [of _ 0]) (simp add: ex_accepts_def)
  note m = mprotect_result [where f = ex_applyprot and s = "table [ex_caller]" and prot = 1
      and vm = 0 and accepts = ex_accepts]
  from m [where a = "0x2000" and len = 0] al
  have "mprotect ex_applyprot (table [ex_caller]) 0x2000 0 1 0 = Some (0, 0)"
    by blast
  moreover from m [where a = "0x2001" and len = "0x2000"] un
  have "mprotect ex_applyprot (table [ex_caller]) 0x2001 0x2000 1 0 = Some (- 1, 0)"
    by blast
  moreover from m [where a = "0x2000" and len = "0x2000"] rg ex_applyprot_accepts
  have "\<exists>r vm'. mprotect ex_applyprot (table [ex_caller]) 0x2000 0x2000 1 0 = Some (r, vm') \<and>
      (r = 0 \<or> r = - 1) \<and>
      ((r = - 1) =
         (sint (0x2000 :: addr) smod PGSIZE \<noteq> 0 \<or>
          (\<exists>k::nat. sint (0x2000 :: addr) + int k * PGSIZE < sint (0x2000 :: addr) + 0x2000 \<and>
                     \<not> ex_accepts (word_of_int (sint (0x2000 :: addr) + int k * PGSIZE)))))"
    by blast
  moreover from m [where a = "0x3000" and len = "0x7FFFCFFF"] rg' rf ex_applyprot_accepts
  have "\<exists>r vm'. mprotect ex_applyprot (table [ex_caller]) 0x3000 0x7FFFCFFF 1 0 = Some (r, vm') \<and>
      (r = 0 \<or> r = - 1) \<and>
      ((r = - 1) =
         (sint (0x3000 :: addr) smod PGSIZE \<noteq> 0 \<or>
          (\<exists>k::nat. sint (0x3000 :: addr) + int k * PGSIZE < sint (0x3000 :: addr) + 0x7FFFCFFF \<and>
                     \<not> ex_accepts (word_of_int (sint (0x3000 :: addr) + int k * PGSIZE)))))"
    by blast
  ultimately show ?thesis by blast
qed

text \<open>
  C9 as the spec states it fails in four ways.  At an address that is not page-aligned,
  \<^verbatim>\<open>mprotect(1, 0, prot)\<close> returns -1, not 0.  From the page at \<open>0x3000\<close>, which
  accepts no protection, with the length \<open>0x7FFFFFFF\<close>, \<^verbatim>\<open>(int) addr + len\<close> overflows
  and \<^verbatim>\<open>mprotect\<close> returns 0 without a call.  From the last page below \<open>2^31\<close>, which
  accepts the protection, with the length 1, \<^verbatim>\<open>i += PGSIZE\<close> overflows, the loop goes on
  to the kernel's first page and \<^verbatim>\<open>mprotect\<close> returns -1.  From the kernel's first
  page with the length -1, an empty range, \<^verbatim>\<open>(int) addr + len\<close> overflows downwards, the
  loop runs and \<^verbatim>\<open>mprotect\<close> returns -1.
\<close>

theorem mprotect_counterexample:
  "mprotect ex_applyprot (table [ex_caller]) 1 0 1 0 = Some (- 1, 0) \<and>
   sint (0x3000 :: addr) smod PGSIZE = 0 \<and> \<not> ex_accepts 0x3000 \<and>
   mprotect ex_applyprot (table [ex_caller]) 0x3000 0x7FFFFFFF 1 0 = Some (0, 0) \<and>
   sint (0x7FFFF000 :: addr) smod PGSIZE = 0 \<and> ex_accepts 0x7FFFF000 \<and>
   mprotect ex_applyprot (table [ex_caller]) 0x7FFFF000 1 1 0 = Some (- 1, 2) \<and>
   sint (0x80000000 :: addr) smod PGSIZE = 0 \<and>
   mprotect ex_applyprot (table [ex_caller]) 0x80000000 (- 1) 1 0 = Some (- 1, 1)"
  by (simp add: mprotect_def mprotect_loop.simps PGSIZE_def signed_modulo_int_def wrap_int_def
      ex_applyprot_def ex_accepts_def KERNBASE_def Let_def)

lemma mprotect_ex_refused:
  "mprotect ex_applyprot (table [ex_caller]) 0x2000 0x2000 1 0 = Some (- 1, 2)"
  by (simp add: mprotect_def mprotect_loop.simps ex_applyprot_def PGSIZE_def wrap_int_def
      KERNBASE_def signed_modulo_int_def Let_def)

subsection \<open>cowfork and clone\<close>

lemmas fork_defs = allocproc_def thread_init_def dup_files_def copy_name_def acquire_def
  release_def emit_def set_slot_def set_state_def PGSIZE_def wrap_int_def Let_def

lemmas ex_embryo_defs = ex_embryo_def ex_embryo_unlocked_def ex_signums_def

lemma allocproc_ex:
  "allocproc ex_signums 0x8000 (acquire (table [ex_caller, zero_proc])) = (Some 1, ex_embryo)"
  "allocproc ex_signums 0x8000 (table [ex_caller, zero_proc]) = (Some 1, ex_embryo_unlocked)"
  by (simp_all add: ex_embryo_def ex_embryo_unlocked_def fork_defs ex_defs cong: let_weak_cong)

text \<open>
  C4.  \<^verbatim>\<open>cowfork\<close> is entered without the lock and takes it only around its last
  assignment.  When \<^verbatim>\<open>cow_copyuvm\<close> fails, both writes of the new slot's state, the one
  in \<^verbatim>\<open>allocproc\<close> and the rollback from EMBRYO to UNUSED, happen with the lock not held.
\<close>

theorem cowfork_rollback_unlocked:
  "\<not> ptable_lock (table [ex_caller, zero_proc]) \<and>
   fst (cowfork ex_signums 0x8000 0 (table [ex_caller, zero_proc])) = - 1 \<and>
   trace (snd (cowfork ex_signums 0x8000 0 (table [ex_caller, zero_proc]))) =
     [StateWrite 1 UNUSED EMBRYO False, Kfree 0x8000, StateWrite 1 EMBRYO UNUSED False]"
  apply (simp only: cowfork_def allocproc_ex prod.case option.case)
  apply (simp add: ex_embryo_defs fork_defs ex_defs cong: let_weak_cong)
  done

text \<open>\<^verbatim>\<open>fork\<close> makes the same two writes with the lock held.\<close>

lemma fork_rollback_locked:
  "fst (fork ex_signums 0x8000 0 (table [ex_caller, zero_proc])) = - 1 \<and>
   \<not> ptable_lock (snd (fork ex_signums 0x8000 0 (table [ex_caller, zero_proc]))) \<and>
   trace (snd (fork ex_signums 0x8000 0 (table [ex_caller, zero_proc]))) =
     [StateWrite 1 UNUSED EMBRYO True, Kfree 0x8000, StateWrite 1 EMBRYO UNUSED True]"
  apply (simp only: fork_def Let_def [of "acquire (table [ex_caller, zero_proc])"]
      allocproc_ex prod.case option.case)
  apply (simp add: ex_embryo_defs fork_defs ex_defs cong: let_weak_cong)
  done

text \<open>
  The successful path of \<^verbatim>\<open>cowfork\<close> also allocates without the lock; only the write of
  RUNNABLE is made with the lock held.
\<close>

lemma cowfork_success_trace:
  "fst (cowfork ex_signums 0x8000 0x9000 (table [ex_caller, zero_proc])) = 4 \<and>
   trace (snd (cowfork ex_signums 0x8000 0x9000 (table [ex_caller, zero_proc]))) =
     [StateWrite 1 UNUSED EMBRYO False, Idup 0, StateWrite 1 EMBRYO RUNNABLE True]"
  apply (simp only: cowfork_def allocproc_ex prod.case option.case)
  apply (simp add: ex_embryo_defs fork_defs ex_defs cong: let_weak_cong)
  done

lemma allocproc_lock: "ptable_lock (snd (allocproc sg k s)) = ptable_lock s"
  by (simp add: allocproc_def set_state_def set_slot_def emit_def Let_def split: option.splits)

lemma allocproc_success:
  assumes "allocproc sg k s = (Some np, s1)"
  shows "np < length (procs s1) \<and> state (procs s1 ! np) = EMBRYO \<and>
         ptable_lock s1 = ptable_lock s"
proof -
  from assms obtain i where f: "find_slot (\<lambda>p. state p = UNUSED) 0 (procs s) = Some i"
    by (auto simp: allocproc_def split: option.splits)
  from find_slot_Some [OF f] have i: "i < length (procs s)" by simp
  from assms f i have "np = i"
    by (auto simp: allocproc_def Let_def split: if_splits)
  with assms f i show ?thesis
    by (auto simp: allocproc_def Let_def set_state_def set_slot_def emit_def split: if_splits)
qed

text \<open>
  In general: when \<^verbatim>\<open>cow_copyuvm\<close> fails, \<^verbatim>\<open>cowfork\<close> returns -1 and the last thing
  it did was the rollback of the slot from EMBRYO to UNUSED, with the lock as the caller
  left it.
\<close>

lemma cowfork_rollback:
  assumes "allocproc sg k s = (Some np, s1)"
  shows "fst (cowfork sg k 0 s) = - 1 \<and>
         last (trace (snd (cowfork sg k 0 s))) = StateWrite np EMBRYO UNUSED (ptable_lock s)"
  using allocproc_success [OF assms]
  by (simp add: cowfork_def assms Let_def set_state_def set_slot_def emit_def)

text \<open>Whenever \<^verbatim>\<open>allocproc\<close> fails, \<^verbatim>\<open>clone\<close> returns -1 and the lock is still held.\<close>

lemma clone_alloc_failure:
  assumes "fst (allocproc sg k (acquire s)) = None"
  shows "fst (clone sg k func arg stack s) = - 1 \<and> ptable_lock (snd (clone sg k func arg stack s))"
proof -
  obtain r s1 where a: "allocproc sg k (acquire s) = (r, s1)"
    by (cases "allocproc sg k (acquire s)")
  with assms have r: "r = None" by simp
  have "ptable_lock s1"
    using allocproc_lock [of sg k "acquire s"] a by (simp add: acquire_def)
  with a r show ?thesis
    by (simp add: clone_def Let_def)
qed

text \<open>
  C7.  When no slot is free, and when a slot is free but \<^verbatim>\<open>kalloc\<close> fails,
  \<^verbatim>\<open>clone\<close> returns -1 with \<^verbatim>\<open>ptable.lock\<close> still held: the failure path has no
  \<^verbatim>\<open>release\<close>.
\<close>

theorem clone_failure_keeps_lock:
  "fst (clone ex_signums 0x8000 0x400 0x10 0x7000 (table [ex_caller])) = - 1 \<and>
   ptable_lock (snd (clone ex_signums 0x8000 0x400 0x10 0x7000 (table [ex_caller]))) \<and>
   fst (clone ex_signums 0 0x400 0x10 0x7000 (table [ex_caller, zero_proc])) = - 1 \<and>
   ptable_lock (snd (clone ex_signums 0 0x400 0x10 0x7000 (table [ex_caller, zero_proc])))"
proof -
  have full: "fst (allocproc ex_signums 0x8000 (acquire (table [ex_caller]))) = None"
    by (simp add: fork_defs ex_defs cong: let_weak_cong)
  have nomem: "fst (allocproc ex_signums 0 (acquire (table [ex_caller, zero_proc]))) = None"
    by (simp add: fork_defs ex_defs cong: let_weak_cong)
  from clone_alloc_failure [OF full] clone_alloc_failure [OF nomem]
  show ?thesis by simp
qed

text \<open>\<^verbatim>\<open>fork\<close> releases the lock on the same two failures.\<close>

lemma fork_alloc_failure:
  assumes "fst (allocproc sg k (acquire s)) = None"
  shows "fst (fork sg k c s) = - 1 \<and> \<not> ptable_lock (snd (fork sg k c s))"
proof -
  obtain r s1 where a: "allocproc sg k (acquire s) = (r, s1)"
    by (cases "allocproc sg k (acquire s)")
  with assms have r: "r = None" by simp
  with a show ?thesis
    by (simp add: fork_def Let_def release_def)
qed

lemma clone_success_releases_lock:
  "fst (clone ex_signums 0x8000 0x400 0x10 0x7000 (table [ex_caller, zero_proc])) = 4 \<and>
   \<not> ptable_lock (snd (clone ex_signums 0x8000 0x400 0x10 0x7000 (table [ex_caller, zero_proc])))"
  apply (simp only: clone_def Let_def [of "acquire (table [ex_caller, zero_proc])"]
      allocproc_ex prod.case option.case)
  apply (simp add: ex_embryo_defs fork_defs ex_defs cong: let_weak_cong)
  done

text \<open>
  C8.  \<^verbatim>\<open>thread_init\<close> copies the name from the new slot to the caller.  The caller
  \<open>sh\<close> clones into a free slot whose name is empty: the clone succeeds, the thread's name
  is empty and not \<open>sh\<close>, and the caller's own name has become empty.
\<close>

theorem clone_copies_name_backwards:
  "name (procs (table [ex_caller, zero_proc]) ! 0) = ''sh'' \<and>
   fst (clone ex_signums 0x8000 0x400 0x10 0x7000 (table [ex_caller, zero_proc])) = 4 \<and>
   state (procs (snd (clone ex_signums 0x8000 0x400 0x10 0x7000 (table [ex_caller, zero_proc]))) ! 1)
     = RUNNABLE \<and>
   name (procs (snd (clone ex_signums 0x8000 0x400 0x10 0x7000 (table [ex_caller, zero_proc]))) ! 1)
     = [] \<and>
   name (procs (snd (clone ex_signums 0x8000 0x400 0x10 0x7000 (table [ex_caller, zero_proc]))) ! 0)
     = []"
  apply (simp only: clone_def Let_def [of "acquire (table [ex_caller, zero_proc])"]
      allocproc_ex prod.case option.case)
  apply (simp add: ex_embryo_defs fork_defs ex_defs cong: let_weak_cong)
  done

text \<open>\<^verbatim>\<open>fork\<close> copies the name from the caller to the child.\<close>

lemma fork_copies_name:
  "name (procs (snd (fork ex_signums 0x8000 0x9000 (table [ex_caller, zero_proc]))) ! 1) = ''sh'' \<and>
   name (procs (snd (fork ex_signums 0x8000 0x9000 (table [ex_caller, zero_proc]))) ! 0) = ''sh''"
  apply (simp only: fork_def Let_def [of "acquire (table [ex_caller, zero_proc])"]
      allocproc_ex prod.case option.case)
  apply (simp add: ex_embryo_defs fork_defs ex_defs cong: let_weak_cong)
  done

text \<open>Whatever the table, \<^verbatim>\<open>thread_init\<close> leaves the new slot's name in both slots.\<close>

lemma thread_init_name:
  assumes "np < length (procs s)" and "curproc s < length (procs s)" and "np \<noteq> curproc s"
  shows "name (procs (thread_init np stack s) ! curproc s) = name (procs s ! np) \<and>
         name (procs (thread_init np stack s) ! np) = name (procs s ! np)"
  using assms
  by (simp add: thread_init_def copy_name_def set_slot_def Let_def cong: let_weak_cong)

end
